theory Spec2Isabelle
  imports Main "HOL-Library.Char_ord" "HOL-Library.List_Lexorder" "HOL-Library.Multiset"
    "HOL-Library.AList"
begin

section \<open>Python strings\<close>

text \<open>
  A Python \<open>str\<close> is modelled as a \<^typ>\<open>string\<close>; a \<^typ>\<open>char\<close> stands for a code point
  below 256. \<open>str.isspace\<close>, \<open>str.strip\<close> and the regular expression class \<open>\s\<close> agree on
  the whitespace code points; below 256 these are 9 to 13, 28 to 32, 133 and 160.
\<close>

abbreviation dq :: string where
  \<comment> \<open>the double quote\<close>
  "dq \<equiv> [CHR 0x22]"

abbreviation nl :: string where
  \<comment> \<open>the newline\<close>
  "nl \<equiv> [CHR 0x0A]"

definition isspace :: "char \<Rightarrow> bool" where
  "isspace c =
     (let n = (of_char c :: nat)
      in (9 \<le> n \<and> n \<le> 13) \<or> (28 \<le> n \<and> n \<le> 32) \<or> n = 133 \<or> n = 160)"

definition strip :: "string \<Rightarrow> string" where
  \<comment> \<open>\<open>s.strip()\<close>\<close>
  "strip s = rev (dropWhile isspace (rev (dropWhile isspace s)))"

definition startswith :: "string \<Rightarrow> string \<Rightarrow> bool" where
  \<comment> \<open>\<open>s.startswith(p)\<close>\<close>
  "startswith s p = (take (length p) s = p)"

definition endswith :: "string \<Rightarrow> string \<Rightarrow> bool" where
  \<comment> \<open>\<open>s.endswith(p)\<close>\<close>
  "endswith s p = (length p \<le> length s \<and> drop (length s - length p) s = p)"

fun contains :: "string \<Rightarrow> string \<Rightarrow> bool" where
  \<comment> \<open>\<open>sub in s\<close>\<close>
  "contains [] sub = (sub = [])"
| "contains (x # xs) sub = (startswith (x # xs) sub \<or> contains xs sub)"

fun join :: "string \<Rightarrow> string list \<Rightarrow> string" where
  \<comment> \<open>\<open>sep.join(xs)\<close>\<close>
  "join sep [] = []"
| "join sep [x] = x"
| "join sep (x # y # ys) = x @ sep @ join sep (y # ys)"

function replace :: "string \<Rightarrow> string \<Rightarrow> string \<Rightarrow> string" where
  \<comment> \<open>\<open>s.replace(old, new)\<close>: every occurrence, left to right, without overlap; an empty
      \<open>old\<close> matches before every character and at the end\<close>
  "replace old new [] = (if old = [] then new else [])"
| "replace old new (x # xs) =
     (if old = [] then new @ x # replace old new xs
      else if startswith (x # xs) old
        then new @ replace old new (drop (length old) (x # xs))
        else x # replace old new xs)"
  by pat_completeness auto
termination
  by (relation "measure (\<lambda>(old, new, s). length s)") auto

definition digit_char :: "nat \<Rightarrow> char" where
  "digit_char d = char_of (48 + d)"

fun str_nat :: "nat \<Rightarrow> string" where
  \<comment> \<open>\<open>str(n)\<close> for a non-negative integer: its decimal digits\<close>
  "str_nat n = (if n < 10 then [digit_char n] else str_nat (n div 10) @ [digit_char (n mod 10)])"

declare str_nat.simps [simp del]

section \<open>Regular expressions\<close>

text \<open>
  The patterns of the source are sequences of single-character items, each with a
  quantifier, one capture group and an end anchor. \<open>rmatch\<close> is the backtracking matcher of
  Python's \<open>re\<close> on such patterns: a greedy quantifier tries the longer match first, the lazy
  \<open>*?\<close> the shorter one, and the first alternative that lets the rest of the pattern match
  wins. It returns the text after the match and the text of group 1.
\<close>

datatype cset =
    Chr char      \<comment> \<open>a literal character\<close>
  | NotChr char   \<comment> \<open>\<open>[^c]\<close>\<close>
  | Dot           \<comment> \<open>\<open>.\<close>: anything but a newline\<close>
  | Space         \<comment> \<open>\<open>\s\<close>\<close>

fun cset_mem :: "cset \<Rightarrow> char \<Rightarrow> bool" where
  "cset_mem (Chr c) x = (x = c)"
| "cset_mem (NotChr c) x = (x \<noteq> c)"
| "cset_mem Dot x = (x \<noteq> CHR 0x0A)"
| "cset_mem Space x = isspace x"

datatype quant = Once | Star | Plus | Opt | LazyStar

datatype tok = Tok cset quant | GroupOpen | GroupClose | Eol

type_synonym regex = "tok list"

definition lit :: "string \<Rightarrow> regex" where
  "lit s = map (\<lambda>c. Tok (Chr c) Once) s"

definition group_text :: "string option \<Rightarrow> string option \<Rightarrow> string" where
  \<comment> \<open>the text between the position where the group opened and the one where it closed\<close>
  "group_text gs ge =
     (case (gs, ge) of (Some a, Some b) \<Rightarrow> take (length a - length b) a | _ \<Rightarrow> [])"

fun rmatch :: "regex \<Rightarrow> string \<Rightarrow> string option \<Rightarrow> string option \<Rightarrow> (string \<times> string) option" where
  "rmatch [] s gs ge = Some (s, group_text gs ge)"
| "rmatch (GroupOpen # r) s gs ge = rmatch r s (Some s) ge"
| "rmatch (GroupClose # r) s gs ge = rmatch r s gs (Some s)"
| "rmatch (Eol # r) s gs ge =
     (if s = [] \<or> s = [CHR 0x0A] then rmatch r s gs ge else None)"
| "rmatch (Tok c Once # r) [] gs ge = None"
| "rmatch (Tok c Once # r) (x # xs) gs ge =
     (if cset_mem c x then rmatch r xs gs ge else None)"
| "rmatch (Tok c Plus # r) [] gs ge = None"
| "rmatch (Tok c Plus # r) (x # xs) gs ge =
     (if cset_mem c x then rmatch (Tok c Star # r) xs gs ge else None)"
| "rmatch (Tok c Star # r) [] gs ge = rmatch r [] gs ge"
| "rmatch (Tok c Star # r) (x # xs) gs ge =
     (if cset_mem c x
      then (case rmatch (Tok c Star # r) xs gs ge of
              Some m \<Rightarrow> Some m
            | None \<Rightarrow> rmatch r (x # xs) gs ge)
      else rmatch r (x # xs) gs ge)"
| "rmatch (Tok c Opt # r) [] gs ge = rmatch r [] gs ge"
| "rmatch (Tok c Opt # r) (x # xs) gs ge =
     (if cset_mem c x
      then (case rmatch r xs gs ge of
              Some m \<Rightarrow> Some m
            | None \<Rightarrow> rmatch r (x # xs) gs ge)
      else rmatch r (x # xs) gs ge)"
| "rmatch (Tok c LazyStar # r) [] gs ge = rmatch r [] gs ge"
| "rmatch (Tok c LazyStar # r) (x # xs) gs ge =
     (case rmatch r (x # xs) gs ge of
        Some m \<Rightarrow> Some m
      | None \<Rightarrow> (if cset_mem c x then rmatch (Tok c LazyStar # r) xs gs ge else None))"

definition re_match :: "regex \<Rightarrow> string \<Rightarrow> (string \<times> string) option" where
  \<comment> \<open>\<open>re.match(p, s)\<close>: a match at the start of \<open>s\<close>\<close>
  "re_match p s = rmatch p s None None"

function re_sub :: "regex \<Rightarrow> (string \<Rightarrow> string) \<Rightarrow> string \<Rightarrow> string" where
  \<comment> \<open>\<open>re.sub(p, repl, s)\<close>, the replacement given as a function of group 1: scan from the
      left, replace each match and go on after it; after an empty match copy one character\<close>
  "re_sub p f [] = (case re_match p [] of Some (rest, g) \<Rightarrow> f g | None \<Rightarrow> [])"
| "re_sub p f (x # xs) =
     (case re_match p (x # xs) of
        None \<Rightarrow> x # re_sub p f xs
      | Some (rest, g) \<Rightarrow>
          if length rest \<le> length xs then f g @ re_sub p f rest
          else f g @ x # re_sub p f xs)"
  by pat_completeness auto
termination
  by (relation "measure (\<lambda>(p, f, s). length s)") auto

function re_findall :: "regex \<Rightarrow> string \<Rightarrow> string list" where
  \<comment> \<open>\<open>re.findall(p, s)\<close> for a pattern with one group: the group of every match\<close>
  "re_findall p [] = (case re_match p [] of Some (rest, g) \<Rightarrow> [g] | None \<Rightarrow> [])"
| "re_findall p (x # xs) =
     (case re_match p (x # xs) of
        None \<Rightarrow> re_findall p xs
      | Some (rest, g) \<Rightarrow>
          if length rest \<le> length xs then g # re_findall p rest
          else g # re_findall p xs)"
  by pat_completeness auto
termination
  by (relation "measure (\<lambda>(p, s). length s)") auto

section \<open>The patterns of the source\<close>

definition emoji_pattern :: regex where
  \<comment> \<open>\<^verbatim>\<open><emoji[^>]*alt="([^"]+)"[^>]*>.*?</emoji>\<close>\<close>
  "emoji_pattern =
     lit ''<emoji'' @ [Tok (NotChr CHR ''>'') Star] @ lit ''alt='' @ [Tok (Chr CHR 0x22) Once]
     @ [GroupOpen, Tok (NotChr CHR 0x22) Plus, GroupClose] @ [Tok (Chr CHR 0x22) Once]
     @ [Tok (NotChr CHR ''>'') Star] @ lit ''>'' @ [Tok Dot LazyStar] @ lit ''</emoji>''"

definition img_src_pattern :: regex where
  \<comment> \<open>\<^verbatim>\<open><img[^>]+src="([^"]+)"\<close>\<close>
  "img_src_pattern =
     lit ''<img'' @ [Tok (NotChr CHR ''>'') Plus] @ lit ''src='' @ [Tok (Chr CHR 0x22) Once]
     @ [GroupOpen, Tok (NotChr CHR 0x22) Plus, GroupClose] @ [Tok (Chr CHR 0x22) Once]"

definition img_tag_pattern :: regex where
  \<comment> \<open>\<^verbatim>\<open><img[^>]*src="([^"]+)"[^>]*>\<close>\<close>
  "img_tag_pattern =
     lit ''<img'' @ [Tok (NotChr CHR ''>'') Star] @ lit ''src='' @ [Tok (Chr CHR 0x22) Once]
     @ [GroupOpen, Tok (NotChr CHR 0x22) Plus, GroupClose] @ [Tok (Chr CHR 0x22) Once]
     @ [Tok (NotChr CHR ''>'') Star] @ lit ''>''"

definition clean_img_pattern :: regex where
  \<comment> \<open>\<^verbatim>\<open><img src="([^"]+)"\s*/?>\<close>\<close>
  "clean_img_pattern =
     lit ''<img src='' @ [Tok (Chr CHR 0x22) Once]
     @ [GroupOpen, Tok (NotChr CHR 0x22) Plus, GroupClose] @ [Tok (Chr CHR 0x22) Once]
     @ [Tok Space Star, Tok (Chr CHR ''/'') Opt] @ lit ''>''"

definition tag_pattern :: regex where
  \<comment> \<open>\<^verbatim>\<open><[^>]+>\<close>\<close>
  "tag_pattern = lit ''<'' @ [Tok (NotChr CHR ''>'') Plus] @ lit ''>''"

definition attachment_pattern :: regex where
  \<comment> \<open>\<^verbatim>\<open>^<attachment id="[^"]*"></attachment>$\<close>, used with \<open>re.match\<close>, which anchors the
      match at the start, so that the leading \<open>^\<close> adds nothing\<close>
  "attachment_pattern =
     lit ''<attachment id='' @ [Tok (Chr CHR 0x22) Once] @ [Tok (NotChr CHR 0x22) Star]
     @ [Tok (Chr CHR 0x22) Once] @ lit ''></attachment>'' @ [Eol]"

definition graph_prefix :: string where
  "graph_prefix = ''https://graph.microsoft.com''"

section \<open>teams\_utils: the text transforms\<close>

definition replace_emoji_tags :: "string \<Rightarrow> string" where
  \<comment> \<open>\<open>re.sub(emoji_pattern, r'\1', text)\<close>\<close>
  "replace_emoji_tags text = re_sub emoji_pattern (\<lambda>g. g) text"

definition clean_img_tags :: "string \<Rightarrow> string" where
  \<comment> \<open>\<open>re.sub(img_tag_pattern, r'<img src="\1">', content)\<close>\<close>
  "clean_img_tags content =
     re_sub img_tag_pattern (\<lambda>g. ''<img src='' @ [CHR 0x22] @ g @ [CHR 0x22] @ ''>'') content"

definition wrap_images_with_lightbox :: "string \<Rightarrow> string" where
  \<comment> \<open>\<open>re.sub(clean_img_pattern, r'<a href="\1" class="lightbox"><img src="\1"></a>', content)\<close>\<close>
  "wrap_images_with_lightbox content =
     re_sub clean_img_pattern
       (\<lambda>g. ''<a href='' @ [CHR 0x22] @ g @ [CHR 0x22] @ '' class='' @ [CHR 0x22] @ ''lightbox''
             @ [CHR 0x22] @ ''><img src='' @ [CHR 0x22] @ g @ [CHR 0x22] @ ''></a>'')
       content"

definition py_slice_to :: "'a list \<Rightarrow> int \<Rightarrow> 'a list" where
  \<comment> \<open>\<open>xs[:k]\<close>: a negative \<open>k\<close> counts from the end\<close>
  "py_slice_to xs k =
     (if 0 \<le> k then take (nat k) xs else take (nat (int (length xs) + k)) xs)"

definition create_member_list_display :: "string list \<Rightarrow> int \<Rightarrow> string \<times> string" where
  "create_member_list_display member_names max_display =
     (if member_names = [] then (''Unknown'', ''Unknown'')
      else
        let limited_names = join '', '' (py_slice_to member_names max_display);
            full_member_list = join '', '' member_names;
            limited_names =
              (if int (length member_names) > max_display then limited_names @ ''...''
               else limited_names)
        in (limited_names, full_member_list))"

section \<open>JSON values and Python exceptions\<close>

text \<open>
  The items the Graph API returns are parsed JSON: \<open>None\<close>, booleans, integers, strings, lists
  and dictionaries (numbers with a fraction are left out; no function of the source
  computes with one). A dictionary is an association list in insertion order.
\<close>

datatype json =
    JNull
  | JBool bool
  | JInt int
  | JStr string
  | JList "json list"
  | JDict "(string \<times> json) list"

datatype exn = AttributeError | TypeError

fun truthy :: "json \<Rightarrow> bool" where
  \<comment> \<open>the truth value Python gives a value in \<open>if x\<close>, \<open>not x\<close> and \<open>x or y\<close>\<close>
  "truthy JNull = False"
| "truthy (JBool b) = b"
| "truthy (JInt i) = (i \<noteq> 0)"
| "truthy (JStr s) = (s \<noteq> [])"
| "truthy (JList xs) = (xs \<noteq> [])"
| "truthy (JDict kvs) = (kvs \<noteq> [])"

fun is_dict :: "json \<Rightarrow> bool" where
  \<comment> \<open>\<open>isinstance(x, dict)\<close>\<close>
  "is_dict (JDict kvs) = True"
| "is_dict _ = False"

fun dict_get :: "json \<Rightarrow> string \<Rightarrow> json \<Rightarrow> exn + json" where
  \<comment> \<open>\<open>x.get(key, default)\<close>: only a dictionary has the method\<close>
  "dict_get (JDict kvs) k d = (case map_of kvs k of Some v \<Rightarrow> Inr v | None \<Rightarrow> Inr d)"
| "dict_get _ k d = Inl AttributeError"

fun str_strip :: "json \<Rightarrow> exn + string" where
  \<comment> \<open>\<open>x.strip()\<close>: only a string has the method\<close>
  "str_strip (JStr s) = Inr (strip s)"
| "str_strip _ = Inl AttributeError"

fun py_iter :: "json \<Rightarrow> exn + json list" where
  \<comment> \<open>the elements \<open>for x in v\<close> runs over: a list's items, a dictionary's keys, a string's
      characters\<close>
  "py_iter (JList xs) = Inr xs"
| "py_iter (JDict kvs) = Inr (map (\<lambda>(k, v). JStr k) kvs)"
| "py_iter (JStr s) = Inr (map (\<lambda>c. JStr [c]) s)"
| "py_iter _ = Inl TypeError"

definition bindE :: "exn + 'a \<Rightarrow> ('a \<Rightarrow> exn + 'b) \<Rightarrow> exn + 'b" where
  \<comment> \<open>sequencing: an exception of the first step is the result\<close>
  "bindE m f = (case m of Inl e \<Rightarrow> Inl e | Inr x \<Rightarrow> f x)"

fun filterE :: "('a \<Rightarrow> exn + bool) \<Rightarrow> 'a list \<Rightarrow> exn + 'a list" where
  \<comment> \<open>\<open>[x for x in xs if f(x)]\<close> where \<open>f\<close> may raise: the first exception ends the loop\<close>
  "filterE f [] = Inr []"
| "filterE f (x # xs) =
     bindE (f x) (\<lambda>b. bindE (filterE f xs) (\<lambda>ys. Inr (if b then x # ys else ys)))"

section \<open>teams\_utils: the message filter\<close>

definition sender_of :: "json \<Rightarrow> json" where
  \<comment> \<open>the sender extraction that \<open>validate_message_content\<close>, \<open>_generate_message_html\<close> and
      the two rendering filters each spell out; \<open>from_data\<close> is \<open>msg.get('from')\<close>\<close>
  "sender_of from_data =
     (if truthy from_data \<and> is_dict from_data then
        (case dict_get from_data ''user'' JNull of
           Inr user_data \<Rightarrow>
             if truthy user_data \<and> is_dict user_data then
               (case dict_get user_data ''displayName'' (JStr ''Unknown'') of
                  Inr sender \<Rightarrow> sender
                | Inl e \<Rightarrow> JStr ''Unknown'')
             else JStr ''Unknown''
         | Inl e \<Rightarrow> JStr ''Unknown'')
      else JStr ''Unknown'')"

definition strip_tags :: "string \<Rightarrow> string" where
  \<comment> \<open>\<open>re.sub(r'<[^>]+>', '', s)\<close>\<close>
  "strip_tags s = re_sub tag_pattern (\<lambda>g. []) s"

definition find_images :: "string \<Rightarrow> string list" where
  \<comment> \<open>\<open>re.findall(r'<img[^>]+src="([^"]+)"', s)\<close>\<close>
  "find_images s = re_findall img_src_pattern s"

definition validate_message_content :: "json \<Rightarrow> exn + bool" where
  "validate_message_content msg =
     bindE (dict_get msg ''messageType'' JNull) (\<lambda>message_type.
     if message_type \<noteq> JStr ''message'' then Inr False
     else
     bindE (dict_get msg ''from'' JNull) (\<lambda>from_data.
     if sender_of from_data = JStr ''Unknown'' then Inr False
     else
     bindE (dict_get msg ''body'' (JDict [])) (\<lambda>body.
     bindE (dict_get body ''content'' JNull) (\<lambda>content.
     let raw_content = (if truthy content then content else JStr [])
     in
     if \<not> truthy raw_content then Inr False
     else
     bindE (str_strip raw_content) (\<lambda>stripped.
     if stripped = [] then Inr False
     else
       (case raw_content of
          JStr raw \<Rightarrow>
            if contains raw ''<systemEventMessage/>'' \<and> length stripped \<le> 50 then Inr False
            else
              let text_only = strip (strip_tags raw);
                  has_text = (text_only \<noteq> []);
                  img_matches = find_images raw;
                  has_images = (img_matches \<noteq> [])
              in Inr (has_text \<or> has_images)
        | _ \<Rightarrow> Inl AttributeError))))))"

section \<open>The environment: HTTP, files, library functions\<close>

text \<open>
  \<open>requests.get\<close> either raises or returns a response with a status code, the body as bytes
  and, where the body parses, the value \<open>response.json()\<close> returns (\<open>None\<close> where it
  raises).
\<close>

datatype response = Raised | Response int string "json option"

text \<open>The diagnostic lines the source prints on its failure paths (progress lines are left out).\<close>

datatype event =
    ApiError int          \<comment> \<open>\<open>Error in API request: {status_code}\<close>\<close>
  | ApiException          \<comment> \<open>\<open>Exception in API request: {e}\<close>\<close>
  | ImageError string     \<comment> \<open>\<open>Error downloading image {src_url}: {e}\<close>\<close>
  | CheckError string     \<comment> \<open>\<open>Error checking messages for chat {chat_id}: {e}\<close>\<close>
  | MembersError string   \<comment> \<open>\<open>Error fetching members for chat {chat_id}: {e}\<close>\<close>

record world =
  sent :: "string list"                \<comment> \<open>the URLs requested so far, in order\<close>
  files :: "(string \<times> string) list"    \<comment> \<open>the files on disk: path and content\<close>
  printed :: "event list"              \<comment> \<open>the diagnostics printed so far\<close>

text \<open>
  What the source takes from outside: the server and the functions of the standard library
  it calls. The server answers the \<open>n\<close>-th request of the run by its URL (the headers are
  the same on every request).
\<close>

record env =
  server :: "nat \<Rightarrow> string \<Rightarrow> response"
  unescape :: "string \<Rightarrow> string"               \<comment> \<open>\<open>html.unescape\<close>\<close>
  path_join :: "string \<Rightarrow> string \<Rightarrow> string"     \<comment> \<open>\<open>os.path.join\<close>\<close>
  rel_path :: "string \<Rightarrow> string"
    \<comment> \<open>\<open>os.path.relpath(p, start=os.path.dirname('index.html'))\<close>\<close>
  can_write :: "string \<Rightarrow> bool"                \<comment> \<open>\<open>open(p, 'wb')\<close> and the write succeed\<close>
  py_str :: "json \<Rightarrow> string"                   \<comment> \<open>\<open>str(x)\<close> of a value that is not a string\<close>
  url_quote :: "string \<Rightarrow> string"              \<comment> \<open>\<open>urllib.parse.quote(s, safe='')\<close>\<close>
  iso_format :: "string \<Rightarrow> string option"
    \<comment> \<open>\<open>datetime.fromisoformat(s).strftime('%Y-%m-%d %H:%M:%S')\<close>, \<open>None\<close> where it raises\<close>
  now_iso :: string                             \<comment> \<open>\<open>datetime.now().isoformat()\<close>\<close>
  now_text :: string                            \<comment> \<open>\<open>datetime.now().strftime("%Y-%m-%d %H:%M:%S")\<close>\<close>

definition fmt :: "env \<Rightarrow> json \<Rightarrow> string" where
  \<comment> \<open>a value inside an f-string, and \<open>str(x)\<close>\<close>
  "fmt e v = (case v of JStr s \<Rightarrow> s | _ \<Rightarrow> py_str e v)"

definition http_get :: "env \<Rightarrow> world \<Rightarrow> string \<Rightarrow> response \<times> world" where
  \<comment> \<open>\<open>requests.get(url, headers=...)\<close>\<close>
  "http_get e w url = (server e (length (sent w)) url, w\<lparr>sent := sent w @ [url]\<rparr>)"

definition print_event :: "event \<Rightarrow> world \<Rightarrow> world" where
  "print_event ev w = w\<lparr>printed := printed w @ [ev]\<rparr>"

definition path_exists :: "world \<Rightarrow> string \<Rightarrow> bool" where
  \<comment> \<open>\<open>os.path.exists(p)\<close>\<close>
  "path_exists w p = (map_of (files w) p \<noteq> None)"

section \<open>teams\_utils: images\<close>

definition download_image_from_src ::
    "env \<Rightarrow> world \<Rightarrow> string \<Rightarrow> string \<Rightarrow> string \<Rightarrow> string \<Rightarrow> nat \<Rightarrow> string option \<times> world" where
  "download_image_from_src e w src_url token folder message_id index =
     (let filename = message_id @ ''_img'' @ str_nat index @ ''.jpg'';
          local_path = path_join e folder filename;
          result = replace [CHR 0x5C] ''/'' (rel_path e local_path)
      in
      if \<not> path_exists w local_path then
        (case http_get e w src_url of
           (Raised, w1) \<Rightarrow> (None, print_event (ImageError src_url) w1)
         | (Response status_code content js, w1) \<Rightarrow>
             if status_code = 200 then
               (if can_write e local_path
                then (Some result, w1\<lparr>files := AList.update local_path content (files w1)\<rparr>)
                else (None, print_event (ImageError src_url) w1))
             else (Some result, w1))
      else (Some result, w))"

fun image_loop ::
    "env \<Rightarrow> string \<Rightarrow> string \<Rightarrow> string \<Rightarrow> nat \<Rightarrow> string list \<Rightarrow> string \<Rightarrow> world \<Rightarrow> string \<times> world" where
  \<comment> \<open>the loop \<open>for idx, img_url in enumerate(img_matches)\<close> of \<open>process_message_content\<close>, from
      index \<open>idx\<close> on\<close>
  "image_loop e token folder message_id idx [] clean_content w = (clean_content, w)"
| "image_loop e token folder message_id idx (img_url # rest) clean_content w =
     (if startswith img_url graph_prefix then
        (case download_image_from_src e w img_url token folder message_id idx of
           (Some local_img_path, w1) \<Rightarrow>
             if local_img_path \<noteq> [] then
               image_loop e token folder message_id (Suc idx) rest
                 (replace img_url local_img_path clean_content) w1
             else image_loop e token folder message_id (Suc idx) rest clean_content w1
         | (None, w1) \<Rightarrow> image_loop e token folder message_id (Suc idx) rest clean_content w1)
      else image_loop e token folder message_id (Suc idx) rest clean_content w)"

definition process_message_content ::
    "env \<Rightarrow> world \<Rightarrow> string \<Rightarrow> string \<Rightarrow> string \<Rightarrow> string \<Rightarrow> string \<times> world" where
  "process_message_content e w raw_content message_id access_token image_folder =
     (let clean_content = unescape e raw_content;
          clean_content = replace_emoji_tags clean_content;
          img_matches = find_images clean_content;
          (clean_content, w1) =
            image_loop e access_token image_folder message_id 0 img_matches clean_content w;
          clean_content = clean_img_tags clean_content;
          clean_content = wrap_images_with_lightbox clean_content
      in (clean_content, w1))"

definition local_image_path :: "env \<Rightarrow> string \<Rightarrow> string \<Rightarrow> nat \<Rightarrow> string" where
  \<comment> \<open>\<open>local_path\<close> of \<open>download_image_from_src\<close>\<close>
  "local_image_path e folder message_id index =
     path_join e folder (message_id @ ''_img'' @ str_nat index @ ''.jpg'')"

definition local_image_ref :: "env \<Rightarrow> string \<Rightarrow> string \<Rightarrow> nat \<Rightarrow> string" where
  \<comment> \<open>the path \<open>download_image_from_src\<close> returns for a file it has\<close>
  "local_image_ref e folder message_id index =
     replace [CHR 0x5C] ''/'' (rel_path e (local_image_path e folder message_id index))"

fun resolve_loop :: "env \<Rightarrow> string \<Rightarrow> string \<Rightarrow> nat \<Rightarrow> string list \<Rightarrow> string \<Rightarrow> string" where
  \<comment> \<open>the content the image loop leaves when every platform-hosted reference is answered
      with its local path: a function of the content alone\<close>
  "resolve_loop e folder message_id idx [] clean_content = clean_content"
| "resolve_loop e folder message_id idx (img_url # rest) clean_content =
     (if startswith img_url graph_prefix \<and> local_image_ref e folder message_id idx \<noteq> []
      then resolve_loop e folder message_id (Suc idx) rest
             (replace img_url (local_image_ref e folder message_id idx) clean_content)
      else resolve_loop e folder message_id (Suc idx) rest clean_content)"

definition resolved_markup :: "env \<Rightarrow> string \<Rightarrow> string \<Rightarrow> string \<Rightarrow> string" where
  \<comment> \<open>the markup of a raw body with every platform-hosted image resolved to its local path\<close>
  "resolved_markup e raw_content message_id image_folder =
     (let clean_content = replace_emoji_tags (unescape e raw_content)
      in wrap_images_with_lightbox (clean_img_tags
           (resolve_loop e image_folder message_id 0 (find_images clean_content) clean_content)))"

section \<open>teams\_chat\_export: pagination\<close>

definition fetch_page :: "env \<Rightarrow> world \<Rightarrow> json \<Rightarrow> (event + json list \<times> json) \<times> world" where
  \<comment> \<open>the \<open>try\<close> block of the loop in \<open>_make_paginated_request\<close> for a true \<open>url\<close>: either
      the diagnostic that is printed before \<open>break\<close>, or the items \<open>all_items.extend(batch)\<close>
      appends and the next \<open>url\<close>. A \<open>url\<close> that is not a string makes \<open>requests.get\<close> raise\<close>
  "fetch_page e w url =
     (case url of
        JStr u \<Rightarrow>
          (case http_get e w u of
             (Raised, w1) \<Rightarrow> (Inl ApiException, w1)
           | (Response status_code content js, w1) \<Rightarrow>
               if status_code = 200 then
                 (case js of
                    None \<Rightarrow> (Inl ApiException, w1)
                  | Some data \<Rightarrow>
                      (case dict_get data ''value'' (JList []) of
                         Inl x \<Rightarrow> (Inl ApiException, w1)
                       | Inr batch \<Rightarrow>
                           (case py_iter batch of
                              Inl x \<Rightarrow> (Inl ApiException, w1)
                            | Inr items \<Rightarrow>
                                (case dict_get data ''@odata.nextLink'' JNull of
                                   Inl x \<Rightarrow> (Inl ApiException, w1)
                                 | Inr next_url \<Rightarrow> (Inr (items, next_url), w1)))))
               else (Inl (ApiError status_code), w1))
      | _ \<Rightarrow> (Inl ApiException, w))"

partial_function (option) paginate ::
    "env \<Rightarrow> json \<Rightarrow> json list \<Rightarrow> world \<Rightarrow> (json list \<times> world) option" where
  \<comment> \<open>\<open>while url: ...\<close> with the accumulator \<open>all_items\<close>; \<open>None\<close> is a loop that never ends\<close>
  "paginate e url all_items w =
     (if \<not> truthy url then Some (all_items, w)
      else
        (case fetch_page e w url of
           (Inl ev, w1) \<Rightarrow> Some (all_items, print_event ev w1)
         | (Inr (items, next_url), w1) \<Rightarrow> paginate e next_url (all_items @ items) w1))"

declare paginate.simps [code]

definition make_paginated_request :: "env \<Rightarrow> world \<Rightarrow> string \<Rightarrow> (json list \<times> world) option" where
  \<comment> \<open>\<open>_make_paginated_request(url, progress_callback, context)\<close>; the callbacks of the source
      only print progress\<close>
  "make_paginated_request e w url = paginate e (JStr url) [] w"

definition request_failed :: "response \<Rightarrow> bool" where
  \<comment> \<open>what the server did with a request that fails: the request raised (a network error),
      or the answer has a status other than 200 (every non-success status is one), whatever
      its body\<close>
  "request_failed r =
     (case r of Raised \<Rightarrow> True | Response status_code content js \<Rightarrow> status_code \<noteq> 200)"

definition is_page :: "response \<Rightarrow> json list \<Rightarrow> json \<Rightarrow> bool" where
  \<comment> \<open>the answer is a page: status 200 and a JSON object with the item list under \<open>value\<close>
      and the cursor under \<open>@odata.nextLink\<close>\<close>
  "is_page r items cursor =
     (case r of
        Response status_code content (Some (JDict kvs)) \<Rightarrow>
          status_code = 200 \<and> map_of kvs ''value'' = Some (JList items)
          \<and> map_of kvs ''@odata.nextLink'' = Some cursor
      | _ \<Rightarrow> False)"

fun failing_run :: "env \<Rightarrow> nat \<Rightarrow> string \<Rightarrow> (json list \<times> string) list \<Rightarrow> bool" where
  \<comment> \<open>what the server does from its \<open>n\<close>-th request on: asked for \<open>url\<close> it answers with
      the pages listed, each given by its items and the URL its cursor names, one request
      after the other, and the request after the last page fails\<close>
  "failing_run e n url [] = (url \<noteq> [] \<and> request_failed (server e n url))"
| "failing_run e n url ((items, next_url) # pages) =
     (url \<noteq> [] \<and> is_page (server e n url) items (JStr next_url)
      \<and> failing_run e (Suc n) next_url pages)"

section \<open>teams\_chat\_export: chats\<close>

definition graph_api_base_url :: string where
  "graph_api_base_url = ''https://graph.microsoft.com/v1.0''"

definition max_members_in_chat_name :: int where
  "max_members_in_chat_name = 3"

fun any_user_message :: "json list \<Rightarrow> exn + bool" where
  \<comment> \<open>the loop \<open>for msg in messages\<close> of \<open>chat_has_messages\<close>\<close>
  "any_user_message [] = Inr False"
| "any_user_message (msg # rest) =
     bindE (dict_get msg ''messageType'' (JStr [])) (\<lambda>msg_type.
       if msg_type = JStr ''message'' then Inr True else any_user_message rest)"

definition chat_has_messages :: "env \<Rightarrow> world \<Rightarrow> json \<Rightarrow> bool \<times> world" where
  "chat_has_messages e w chat_id =
     (let url = ''https://graph.microsoft.com/v1.0/chats/'' @ fmt e chat_id @ ''/messages?$top=10''
      in
      case http_get e w url of
        (Raised, w1) \<Rightarrow> (False, print_event (CheckError (fmt e chat_id)) w1)
      | (Response status_code content js, w1) \<Rightarrow>
          if status_code = 200 then
            (case js of
               None \<Rightarrow> (False, print_event (CheckError (fmt e chat_id)) w1)
             | Some data \<Rightarrow>
                 (case bindE (dict_get data ''value'' (JList [])) (\<lambda>messages.
                       bindE (py_iter messages) any_user_message) of
                    Inl x \<Rightarrow> (False, print_event (CheckError (fmt e chat_id)) w1)
                  | Inr found \<Rightarrow> (found, w1)))
          else (False, w1))"

definition get_chat_members :: "env \<Rightarrow> world \<Rightarrow> json \<Rightarrow> json \<times> world" where
  \<comment> \<open>\<open>_get_chat_members(chat_id)\<close>\<close>
  "get_chat_members e w chat_id =
     (let url = graph_api_base_url @ ''/chats/'' @ fmt e chat_id @ ''/members''
      in
      case http_get e w url of
        (Raised, w1) \<Rightarrow> (JList [], print_event (MembersError (fmt e chat_id)) w1)
      | (Response status_code content js, w1) \<Rightarrow>
          if status_code = 200 then
            (case js of
               None \<Rightarrow> (JList [], print_event (MembersError (fmt e chat_id)) w1)
             | Some data \<Rightarrow>
                 (case dict_get data ''value'' (JList []) of
                    Inl x \<Rightarrow> (JList [], print_event (MembersError (fmt e chat_id)) w1)
                  | Inr members \<Rightarrow> (members, w1)))
          else (JList [], w1))"

record exporter =
  user_display_name :: json
  chats_group :: "(json \<times> json) list"
  group_full_member_lists :: "(json \<times> string) list"

fun other_members :: "env \<Rightarrow> json \<Rightarrow> json list \<Rightarrow> exn + string list" where
  \<comment> \<open>\<open>[str(m.get('displayName', 'Unknown') or 'Unknown') for m in members
        if m.get('displayName') != self.user_display_name]\<close>\<close>
  "other_members e user [] = Inr []"
| "other_members e user (m # ms) =
     bindE (dict_get m ''displayName'' JNull) (\<lambda>name.
       if name \<noteq> user then
         bindE (dict_get m ''displayName'' (JStr ''Unknown'')) (\<lambda>shown.
         bindE (other_members e user ms) (\<lambda>rest.
           Inr (fmt e (if truthy shown then shown else JStr ''Unknown'') # rest)))
       else other_members e user ms)"

fun hashable :: "json \<Rightarrow> bool" where
  \<comment> \<open>a list or a dictionary cannot be a dictionary key\<close>
  "hashable (JList xs) = False"
| "hashable (JDict kvs) = False"
| "hashable _ = True"

definition process_group_chat ::
    "env \<Rightarrow> exporter \<Rightarrow> world \<Rightarrow> json \<Rightarrow> (exn + exporter) \<times> world" where
  \<comment> \<open>\<open>_process_group_chat(chat)\<close>; dictionary keys are compared by equality of the values\<close>
  "process_group_chat e st w chat =
     (case dict_get chat ''id'' JNull of
        Inl x \<Rightarrow> (Inl x, w)
      | Inr chat_id \<Rightarrow>
     (case dict_get chat ''topic'' (JStr []) of
        Inl x \<Rightarrow> (Inl x, w)
      | Inr chat_name \<Rightarrow>
     (case chat_has_messages e w chat_id of
        (False, w1) \<Rightarrow> (Inr st, w1)
      | (True, w1) \<Rightarrow>
     (case get_chat_members e w1 chat_id of
        (members, w2) \<Rightarrow>
          (bindE (py_iter members) (\<lambda>ms.
           bindE (other_members e (user_display_name st) ms) (\<lambda>others.
           let (limited_names, full_member_list) =
                 create_member_list_display others max_members_in_chat_name;
               chat_name =
                 (if \<not> truthy chat_name then
                    JStr (if limited_names \<noteq> [] then ''Group: '' @ limited_names
                          else ''Group: Unknown'')
                  else chat_name)
           in
           if hashable chat_name then
             Inr (st\<lparr>chats_group := AList.update chat_name chat_id (chats_group st),
                     group_full_member_lists :=
                       AList.update chat_name full_member_list (group_full_member_lists st)\<rparr>)
           else Inl TypeError)), w2)))))"

section \<open>teams\_chat\_export: channels\<close>

definition ignored_channels :: "(string \<times> string) list" where
  \<comment> \<open>\<open>IGNORED_CHANNELS\<close> of config.py\<close>
  "ignored_channels = [(''Employee Platform'', ''General'')]"

definition ignored_chats :: "string list" where
  \<comment> \<open>\<open>IGNORED_CHATS\<close> of config.py\<close>
  "ignored_chats = []"

definition no_messages_placeholder :: "env \<Rightarrow> json" where
  "no_messages_placeholder e =
     JDict [(''id'', JStr ''no_messages''),
            (''body'', JDict [(''content'', JStr ''No messages found in this channel.'')]),
            (''createdDateTime'', JStr (now_iso e)),
            (''from'', JDict [(''user'', JDict [(''displayName'', JStr ''System'')])])]"

definition channel_messages_to_store :: "env \<Rightarrow> json list \<Rightarrow> exn + json list" where
  \<comment> \<open>\<open>fetch_teams_and_channels\<close>, for a channel that is not ignored, from the fetched
      \<open>all_messages\<close> to the list stored in \<open>self.channel_messages\<close>: the filter and the
      placeholder\<close>
  "channel_messages_to_store e all_messages =
     bindE (filterE validate_message_content all_messages) (\<lambda>filtered_messages.
       Inr (if filtered_messages = [] then [no_messages_placeholder e]
            else filtered_messages))"

section \<open>teams\_chat\_export: rendering\<close>

fun created_key :: "json \<Rightarrow> exn + json" where
  \<comment> \<open>the sort key \<open>x.get('createdDateTime', '')\<close>\<close>
  "created_key msg = dict_get msg ''createdDateTime'' (JStr [])"

fun created_text :: "json \<Rightarrow> string" where
  \<comment> \<open>the sort key where it is a string\<close>
  "created_text msg =
     (case created_key msg of Inr (JStr s) \<Rightarrow> s | _ \<Rightarrow> [])"

fun created_number :: "json \<Rightarrow> int" where
  \<comment> \<open>the sort key where it is a number (\<open>True\<close> is 1, \<open>False\<close> is 0)\<close>
  "created_number msg =
     (case created_key msg of
        Inr (JInt i) \<Rightarrow> i
      | Inr (JBool b) \<Rightarrow> (if b then 1 else 0)
      | _ \<Rightarrow> 0)"

fun is_str :: "exn + json \<Rightarrow> bool" where
  "is_str (Inr (JStr s)) = True"
| "is_str _ = False"

fun is_number :: "exn + json \<Rightarrow> bool" where
  "is_number (Inr (JInt i)) = True"
| "is_number (Inr (JBool b)) = True"
| "is_number _ = False"

fun first_error :: "(exn + 'a) list \<Rightarrow> exn option" where
  "first_error [] = None"
| "first_error (Inl x # rs) = Some x"
| "first_error (Inr v # rs) = first_error rs"

definition sort_messages :: "json list \<Rightarrow> exn + json list" where
  \<comment> \<open>\<open>messages.sort(key=lambda x: x.get('createdDateTime', ''))\<close>. The sort is stable.
      Strings are compared code point by code point, numbers by value; comparing keys that
      are no two strings and no two numbers raises \<open>TypeError\<close> (keys that are all lists
      are not modelled). A list of fewer than two items is not compared at all\<close>
  "sort_messages messages =
     (let keys = map created_key messages
      in case first_error keys of
           Some x \<Rightarrow> Inl x
         | None \<Rightarrow>
             if length messages \<le> 1 then Inr messages
             else if list_all is_str keys then Inr (sort_key created_text messages)
             else if list_all is_number keys then Inr (sort_key created_number messages)
             else Inl TypeError)"

definition keep_for_render :: "json \<Rightarrow> exn + bool" where
  \<comment> \<open>the body of the filter loop that \<open>_generate_chat_html\<close> and \<open>_generate_channel_html\<close>
      both spell out: \<open>False\<close> stands for \<open>continue\<close>, \<open>True\<close> for the \<open>append\<close>\<close>
  "keep_for_render msg =
     bindE (dict_get msg ''from'' JNull) (\<lambda>from_data.
     if sender_of from_data = JStr ''Unknown'' then Inr False
     else
     bindE (dict_get msg ''body'' (JDict [])) (\<lambda>body.
     bindE (dict_get body ''content'' (JStr [])) (\<lambda>raw_content.
     if \<not> truthy raw_content then Inr False
     else
     bindE (str_strip raw_content) (\<lambda>raw_stripped.
     if raw_stripped = [] then Inr False
     else
       (case raw_content of
          JStr raw \<Rightarrow>
            if contains raw ''<systemEventMessage/>''
               \<or> raw_stripped \<in> set [[], ''<p></p>'', ''<div></div>'']
               \<or> (startswith raw_stripped ''<attachment id=''
                   \<and> endswith raw_stripped ''</attachment>'' \<and> length raw_stripped < 100)
               \<or> re_match attachment_pattern raw_stripped \<noteq> None
            then Inr False
            else Inr True
        | _ \<Rightarrow> Inl AttributeError)))))"

definition format_timestamp :: "env \<Rightarrow> json \<Rightarrow> json" where
  \<comment> \<open>\<open>format_timestamp(timestamp_str)\<close>: a value that is not a string has no \<open>replace\<close>,
      and the \<open>except\<close> returns it as it is\<close>
  "format_timestamp e timestamp_str =
     (case timestamp_str of
        JStr s \<Rightarrow>
          (case iso_format e (replace ''Z'' ''+00:00'' s) of
             Some t \<Rightarrow> JStr t
           | None \<Rightarrow> timestamp_str)
      | _ \<Rightarrow> timestamp_str)"

definition bullet :: string where
  \<comment> \<open>the character U+2022 between sender and time, which lies beyond the code points
      modelled: it stands as its three UTF-8 bytes\<close>
  "bullet = [CHR 0xE2, CHR 0x80, CHR 0xA2]"

definition generate_message_html :: "env \<Rightarrow> exporter \<Rightarrow> world \<Rightarrow> json \<Rightarrow> string \<times> world" where
  \<comment> \<open>\<open>_generate_message_html(msg, chat_type)\<close> with \<open>access_token\<close> and \<open>image_folder\<close> of
      config.py; every exception ends in \<open>return ""\<close>. \<open>html.unescape\<close> or the \<open>re.sub\<close>
      after it raises on a content that is not a string, before any download\<close>
  "generate_message_html e st w msg =
     (case bindE (dict_get msg ''id'' (JStr [])) (\<lambda>message_id.
           bindE (dict_get msg ''from'' JNull) (\<lambda>from_data.
           bindE (dict_get msg ''body'' JNull) (\<lambda>body_data.
           bindE (if truthy body_data \<and> is_dict body_data
                  then dict_get body_data ''content'' (JStr []) else Inr (JStr [])) (\<lambda>raw_content.
           bindE (dict_get msg ''createdDateTime'' (JStr [])) (\<lambda>created.
           bindE (dict_get msg ''lastModifiedDateTime'' created) (\<lambda>timestamp.
           (case raw_content of
              JStr raw \<Rightarrow> Inr (message_id, sender_of from_data, raw, timestamp)
            | _ \<Rightarrow> Inl TypeError))))))) of
        Inl x \<Rightarrow> ([], w)
      | Inr (message_id, sender, raw, timestamp) \<Rightarrow>
          (case process_message_content e w raw (fmt e message_id) ''YOUR_ACCESS_TOKEN_HERE'' ''img'' of
             (clean_content, w1) \<Rightarrow>
               let content_check = strip (strip_tags clean_content)
               in
               if clean_content = [] \<or> strip clean_content = [] \<or> content_check = [] then ([], w1)
               else
                 let formatted_timestamp = format_timestamp e timestamp;
                     css_class = (if sender = user_display_name st then ''mine'' else ''theirs'')
                 in (''<div class='' @ dq @ ''clearfix'' @ dq @ ''><div class='' @ dq @ ''message ''
                       @ css_class @ dq @ ''><div class='' @ dq @ ''meta'' @ dq @ ''>'' @ fmt e sender
                       @ '' '' @ bullet @ '' '' @ fmt e formatted_timestamp @ ''</div><div class=''
                       @ dq @ ''text'' @ dq @ ''>'' @ clean_content @ ''</div></div></div>'', w1)))"

fun render_messages :: "env \<Rightarrow> exporter \<Rightarrow> world \<Rightarrow> json list \<Rightarrow> string list \<times> world" where
  \<comment> \<open>the loop \<open>for msg in filtered_messages\<close>: the pieces added to \<open>html\<close>, in order\<close>
  "render_messages e st w [] = ([], w)"
| "render_messages e st w (msg # rest) =
     (case generate_message_html e st w msg of
        (message_html, w1) \<Rightarrow>
          (case render_messages e st w1 rest of
             (pieces, w2) \<Rightarrow>
               (if strip message_html \<noteq> [] then message_html # pieces else pieces, w2)))"

definition filter_for_render :: "json list \<Rightarrow> exn + json list" where
  \<comment> \<open>sorting, then the filter loop: \<open>filtered_messages\<close> of \<open>_generate_chat_html\<close> and, for a
      channel that is not ignored, of \<open>_generate_channel_html\<close>\<close>
  "filter_for_render messages = bindE (sort_messages messages) (filterE keep_for_render)"

function split_from :: "string \<Rightarrow> string \<Rightarrow> string \<Rightarrow> string list" where
  \<comment> \<open>\<open>s.split(sep)\<close> for a separator that is not empty, with the piece read so far\<close>
  "split_from sep piece [] = [piece]"
| "split_from sep piece (x # xs) =
     (if sep \<noteq> [] \<and> startswith (x # xs) sep
      then piece # split_from sep [] (drop (length sep) (x # xs))
      else split_from sep (piece @ [x]) xs)"
  by pat_completeness auto
termination
  by (relation "measure (\<lambda>(sep, piece, s). length s)") auto

fun members_from :: "nat \<Rightarrow> string list \<Rightarrow> string" where
  \<comment> \<open>the loop \<open>for idx, part in enumerate(parts)\<close> of \<open>format_member_list_for_display\<close>,
      joined, from index \<open>idx\<close> on\<close>
  "members_from idx [] = []"
| "members_from idx (part # rest) =
     (if idx > 0 then (if idx mod 2 = 0 then ''; '' @ part else '', '' @ part) else part)
     @ members_from (Suc idx) rest"

definition format_member_list_for_display :: "string \<Rightarrow> string" where
  "format_member_list_for_display full_members =
     (if full_members = [] then []
      else members_from 0 (split_from '', '' [] full_members))"

definition chat_header :: "env \<Rightarrow> string \<Rightarrow> (json \<times> string) list option \<Rightarrow> string" where
  \<comment> \<open>\<open>_generate_chat_html\<close>: the opening tag, the heading and the member line\<close>
  "chat_header e chat_name member_lists =
     ''<div id='' @ dq @ url_quote e chat_name @ dq @ '' class='' @ dq @ ''chat-section'' @ dq
       @ ''>'' @ nl
     @ ''  <h2 style='' @ dq @ ''margin-top:0'' @ dq @ ''>'' @ chat_name @ ''</h2>'' @ nl
     @ (case member_lists of
          None \<Rightarrow> []
        | Some ml \<Rightarrow>
            (case map_of ml (JStr chat_name) of
               None \<Rightarrow> []
             | Some members \<Rightarrow>
                 let formatted_members = format_member_list_for_display members
                 in if formatted_members \<noteq> [] then
                      ''  <div style='' @ dq @ ''color:#555;font-size:0.95em;margin-bottom:10px;''
                        @ dq @ ''>Members: '' @ formatted_members @ ''</div>'' @ nl
                    else []))"

definition ignored_chat_html :: "env \<Rightarrow> string \<Rightarrow> string" where
  "ignored_chat_html e chat_name =
     ''<div class='' @ dq @ ''clearfix'' @ dq @ ''><div class='' @ dq @ ''message theirs'' @ dq
       @ ''><div class='' @ dq @ ''meta'' @ dq @ ''>System '' @ bullet @ '' '' @ now_text e
       @ ''</div><div class='' @ dq @ ''text'' @ dq
       @ ''>This chat has been ignored due to configuration settings.<br><br>Chat: '' @ chat_name
       @ ''<br><br>To enable message fetching, remove this chat from the IGNORED_CHATS list in config.py.</div></div></div>''"

definition generate_chat_html ::
    "env \<Rightarrow> exporter \<Rightarrow> world \<Rightarrow> json \<Rightarrow> json \<Rightarrow> (json \<times> string) list option
       \<Rightarrow> ((exn + string) \<times> world) option" where
  \<comment> \<open>\<open>_generate_chat_html(chat_name, chat_id, chat_type, member_lists)\<close>; \<open>chat_type\<close> is not
      used by the source. \<open>urllib.parse.quote\<close> raises on a name that is not a string; \<open>None\<close>
      is a message fetch that never ends\<close>
  "generate_chat_html e st w chat_name chat_id member_lists =
     (case chat_name of
        JStr name \<Rightarrow>
          if name \<in> set ignored_chats then
            Some (Inr (chat_header e name member_lists @ ignored_chat_html e name @ ''</div>'' @ nl), w)
          else
            (case make_paginated_request e w (graph_api_base_url @ ''/chats/'' @ fmt e chat_id @ ''/messages'') of
               None \<Rightarrow> None
             | Some (messages, w1) \<Rightarrow>
                 (case filter_for_render messages of
                    Inl x \<Rightarrow> Some (Inl x, w1)
                  | Inr filtered_messages \<Rightarrow>
                      (case render_messages e st w1 filtered_messages of
                         (pieces, w2) \<Rightarrow>
                           Some (Inr (chat_header e name member_lists @ concat pieces
                                      @ ''</div>'' @ nl), w2))))
      | _ \<Rightarrow> Some (Inl TypeError, w))"

definition channel_filtered_messages :: "json \<Rightarrow> json \<Rightarrow> json list \<Rightarrow> exn + json list" where
  \<comment> \<open>\<open>filtered_messages\<close> of \<open>_generate_channel_html\<close>: an ignored channel keeps all its
      sorted messages\<close>
  "channel_filtered_messages team_name channel_name messages =
     (if (team_name, channel_name) \<in> set (map (\<lambda>(t, c). (JStr t, JStr c)) ignored_channels)
      then sort_messages messages
      else filter_for_render messages)"

definition channel_header :: "env \<Rightarrow> json \<Rightarrow> json \<Rightarrow> string" where
  \<comment> \<open>\<open>_generate_channel_html\<close>: the opening tag and the heading\<close>
  "channel_header e team_name channel_name =
     ''<div id='' @ dq @ url_quote e (fmt e team_name @ ''|||'' @ fmt e channel_name) @ dq
       @ '' class='' @ dq @ ''chat-section'' @ dq @ ''>'' @ nl
     @ ''  <h2 style='' @ dq @ ''margin-top:0'' @ dq @ ''>'' @ fmt e team_name
       @ '' / '' @ fmt e channel_name @ ''</h2>'' @ nl"

definition generate_channel_html ::
    "env \<Rightarrow> exporter \<Rightarrow> world \<Rightarrow> json \<Rightarrow> json \<Rightarrow> json list \<Rightarrow> (exn + string) \<times> world" where
  \<comment> \<open>\<open>_generate_channel_html(team_name, channel_name, messages)\<close>\<close>
  "generate_channel_html e st w team_name channel_name messages =
     (case channel_filtered_messages team_name channel_name messages of
        Inl x \<Rightarrow> (Inl x, w)
      | Inr filtered_messages \<Rightarrow>
          (case render_messages e st w filtered_messages of
             (pieces, w1) \<Rightarrow>
               (Inr (channel_header e team_name channel_name @ concat pieces
                     @ ''</div>'' @ nl), w1)))"

section \<open>Example environments\<close>

text \<open>
  The concrete runs below use a server given by the example and library functions that
  agree with Python's on the inputs the examples meet: text without \<open>&\<close> (which
  \<open>html.unescape\<close> returns unchanged), relative POSIX paths without \<open>.\<close> or \<open>..\<close>
  components, names made of unreserved URL characters and timestamps that
  \<open>datetime.fromisoformat\<close> rejects.
\<close>

definition example_env :: "(nat \<Rightarrow> string \<Rightarrow> response) \<Rightarrow> env" where
  "example_env srv =
     \<lparr>server = srv, unescape = (\<lambda>s. s), path_join = (\<lambda>a b. a @ ''/'' @ b),
      rel_path = (\<lambda>p. p), can_write = (\<lambda>p. True), py_str = (\<lambda>v. ''None''),
      url_quote = (\<lambda>s. s), iso_format = (\<lambda>s. None),
      now_iso = ''2024-01-01T00:00:00'', now_text = ''2024-01-01 00:00:00''\<rparr>"

definition empty_world :: world where
  "empty_world = \<lparr>sent = [], files = [], printed = []\<rparr>"

definition two_page_server :: "nat \<Rightarrow> string \<Rightarrow> response" where
  \<comment> \<open>the first page of two items names a second page, and the request of that one gets
      the status 500, with a body that holds a third item\<close>
  "two_page_server n url =
     (if url = ''https://graph.microsoft.com/v1.0/chats'' then
        Response 200 []
          (Some (JDict [(''value'', JList [JInt 1, JInt 2]),
                        (''@odata.nextLink'', JStr ''https://graph.microsoft.com/v1.0/chats?p=2'')]))
      else Response 500 [] (Some (JDict [(''value'', JList [JInt 3])])))"

definition one_page_server :: "nat \<Rightarrow> string \<Rightarrow> response" where
  "one_page_server n url =
     Response 200 [] (Some (JDict [(''value'', JList [JInt 1, JInt 2, JInt 3])]))"

definition member :: "string \<Rightarrow> json" where
  "member name = JDict [(''displayName'', JStr name)]"

definition group_server :: "string list \<Rightarrow> nat \<Rightarrow> string \<Rightarrow> response" where
  \<comment> \<open>the chat \<open>c1\<close> has one user message and the given members\<close>
  "group_server names n url =
     (if url = ''https://graph.microsoft.com/v1.0/chats/c1/messages?$top=10'' then
        Response 200 [] (Some (JDict [(''value'', JList [JDict [(''messageType'', JStr ''message'')]])]))
      else if url = ''https://graph.microsoft.com/v1.0/chats/c1/members'' then
        Response 200 [] (Some (JDict [(''value'', JList (map member names))]))
      else Response 404 [] None)"

definition alice :: exporter where
  "alice = \<lparr>user_display_name = JStr ''Alice'', chats_group = [], group_full_member_lists = []\<rparr>"

definition text_message :: "string \<Rightarrow> string \<Rightarrow> json" where
  \<comment> \<open>a message of Bob with the given creation time and content\<close>
  "text_message created content =
     JDict [(''messageType'', JStr ''message''),
            (''from'', JDict [(''user'', JDict [(''displayName'', JStr ''Bob'')])]),
            (''body'', JDict [(''content'', JStr content)]),
            (''createdDateTime'', JStr created)]"

definition timeline :: "json list" where
  \<comment> \<open>four messages out of order; the second was sent at 08:00 UTC, before the third, and
      its timestamp string is the greater one\<close>
  "timeline =
     [text_message ''2024-01-02T08:00:00Z'' ''two'',
      text_message ''2024-01-01T10:00:00+02:00'' ''early'',
      text_message ''2024-01-01T09:00:00Z'' ''one'',
      text_message ''2024-01-01T09:30:00Z'' '' '']"

definition bot_message :: json where
  \<comment> \<open>a message posted by an application: it has no \<open>user\<close>\<close>
  "bot_message =
     JDict [(''id'', JStr ''1''), (''messageType'', JStr ''message''),
            (''from'', JDict [(''application'', JDict [(''displayName'', JStr ''Bot'')]),
                              (''user'', JNull)]),
            (''body'', JDict [(''content'', JStr ''hello'')]),
            (''createdDateTime'', JStr ''2024-01-01T10:00:00Z'')]"

definition bot_server :: "nat \<Rightarrow> string \<Rightarrow> response" where
  \<comment> \<open>the chat \<open>c1\<close> holds the one message of the application\<close>
  "bot_server n url =
     (if url = ''https://graph.microsoft.com/v1.0/chats/c1/messages?$top=10''
         \<or> url = ''https://graph.microsoft.com/v1.0/chats/c1/messages''
      then Response 200 [] (Some (JDict [(''value'', JList [bot_message])]))
      else Response 404 [] None)"

definition status_server :: "int \<Rightarrow> nat \<Rightarrow> string \<Rightarrow> response" where
  \<comment> \<open>every request is answered with the given status and the same few bytes\<close>
  "status_server status n url = Response status ''JFIF'' None"

definition raising_server :: "nat \<Rightarrow> string \<Rightarrow> response" where
  \<comment> \<open>every request raises (no network)\<close>
  "raising_server n url = Raised"

definition hosted_image :: string where
  \<comment> \<open>an image element as the platform sends it, hosted on the platform\<close>
  "hosted_image =
     ''<img alt='' @ dq @ ''image'' @ dq @ '' src='' @ dq
       @ ''https://graph.microsoft.com/v1.0/chats/c1/messages/1/hostedContents/a/$value'' @ dq
       @ '' width='' @ dq @ ''250'' @ dq @ ''>''"

definition foreign_image :: string where
  \<comment> \<open>an image element hosted elsewhere\<close>
  "foreign_image =
     ''<img alt='' @ dq @ ''logo'' @ dq @ '' src='' @ dq @ ''https://example.com/logo.png'' @ dq
       @ '' width='' @ dq @ ''250'' @ dq @ ''>''"

definition hosted_url :: string where
  "hosted_url = ''https://graph.microsoft.com/v1.0/chats/c1/messages/1/hostedContents/a/$value''"

definition lightbox :: "string \<Rightarrow> string" where
  \<comment> \<open>the image element with the source \<open>src\<close> as normalization leaves it\<close>
  "lightbox src =
     ''<a href='' @ dq @ src @ dq @ '' class='' @ dq @ ''lightbox'' @ dq @ ''><img src='' @ dq
       @ src @ dq @ ''></a>''"

definition downloaded_world :: world where
  \<comment> \<open>the world after the image of message \<open>m1\<close> has been downloaded\<close>
  "downloaded_world =
     \<lparr>sent = [hosted_url], files = [(''img/m1_img0.jpg'', ''JFIF'')], printed = []\<rparr>"

definition image_only_message :: json where
  \<comment> \<open>a message of Bob that holds an image and no text\<close>
  "image_only_message = text_message ''2024-01-01T09:00:00Z'' foreign_image"

definition channel_env :: env where
  \<comment> \<open>the example environment with a \<open>quote\<close> that encodes the bar and a date formatting
      that accepts the time of the run, as Python's do\<close>
  "channel_env =
     (example_env raising_server)
       \<lparr>url_quote := replace ''|'' ''%7C'',
        iso_format := (\<lambda>s. if s = ''2024-01-01T00:00:00'' then Some ''2024-01-01 00:00:00''
                           else None)\<rparr>"

section \<open>The message filter discards empty bodies\<close>

text \<open>
  C9. A message dictionary whose body content is a string that is empty or whitespace-only
  once every HTML tag is removed, and that holds no image reference, is discarded:
  \<open>validate_message_content\<close> returns \<open>False\<close> (it does not raise).
\<close>

theorem validate_discards_empty_body:
  assumes "dict_get msg ''body'' (JDict []) = Inr body"
    and "dict_get body ''content'' JNull = Inr (JStr raw)"
    and "strip (strip_tags raw) = []"
    and "find_images raw = []"
  shows "validate_message_content msg = Inr False"
proof -
  obtain kvs where msg: "msg = JDict kvs"
    using assms(1) by (cases msg) auto
  show ?thesis
    using assms unfolding validate_message_content_def msg
    by (auto simp: bindE_def Let_def split: option.splits sum.splits json.splits)
qed

theorem validate_discards_empty_body_witness:
  "validate_message_content
     (JDict [(''messageType'', JStr ''message''),
             (''from'', JDict [(''user'', JDict [(''displayName'', JStr ''Al'')])]),
             (''body'', JDict [(''content'', JStr ''<p> </p><br/>'')])]) = Inr False"
  by (rule validate_discards_empty_body
        [where body = "JDict [(''content'', JStr ''<p> </p><br/>'')]" and raw = "''<p> </p><br/>''"])
     (simp_all add: strip_tags_def find_images_def tag_pattern_def img_src_pattern_def lit_def
        re_match_def strip_def isspace_def group_text_def)

section \<open>Pagination\<close>

lemma fetch_page_failed:
  assumes "request_failed (server e (length (sent w)) url)"
  shows "\<exists>ev. fetch_page e w (JStr url) = (Inl ev, w\<lparr>sent := sent w @ [url]\<rparr>)"
  using assms
  by (auto simp: fetch_page_def http_get_def request_failed_def split: response.splits)

lemma fetch_page_is_page:
  assumes "is_page (server e (length (sent w)) url) items cursor"
  shows "fetch_page e w (JStr url) = (Inr (items, cursor), w\<lparr>sent := sent w @ [url]\<rparr>)"
  using assms
  by (auto simp: fetch_page_def http_get_def is_page_def
      split: response.splits option.splits json.splits)

lemma paginate_failing_run:
  "failing_run e (length (sent w)) url pages \<Longrightarrow>
   \<exists>w' ev. paginate e (JStr url) acc w = Some (acc @ concat (map fst pages), w')
      \<and> printed w' = printed w @ [ev]
      \<and> sent w' = sent w @ url # map snd pages"
proof (induction pages arbitrary: w url acc)
  case Nil
  then have u: "url \<noteq> []" and "request_failed (server e (length (sent w)) url)"
    by simp_all
  from fetch_page_failed [OF this(2)] obtain ev where
    "fetch_page e w (JStr url) = (Inl ev, w\<lparr>sent := sent w @ [url]\<rparr>)" ..
  then show ?case
    using u by (subst paginate.simps) (simp add: print_event_def)
next
  case (Cons p pages)
  obtain items next_url where p: "p = (items, next_url)"
    by (cases p)
  from Cons.prems p have u: "url \<noteq> []"
    and pg: "is_page (server e (length (sent w)) url) items (JStr next_url)"
    and r: "failing_run e (Suc (length (sent w))) next_url pages"
    by simp_all
  let ?w1 = "w\<lparr>sent := sent w @ [url]\<rparr>"
  have f: "fetch_page e w (JStr url) = (Inr (items, JStr next_url), ?w1)"
    using pg by (rule fetch_page_is_page)
  have "failing_run e (length (sent ?w1)) next_url pages"
    using r by simp
  from Cons.IH [OF this, of "acc @ items"] obtain w' ev where
    "paginate e (JStr next_url) (acc @ items) ?w1 = Some ((acc @ items) @ concat (map fst pages), w')"
    "printed w' = printed ?w1 @ [ev]" "sent w' = sent ?w1 @ next_url # map snd pages"
    by blast
  then show ?case
    using f u p by (subst paginate.simps) auto
qed

text \<open>
  C5. Whatever the pages are: when the server answers the requests of the pagination loop
  with some pages and then a request fails (its answer has a status other than 200,
  whatever the body, or the request raises), the loop prints one diagnostic and returns at
  once the items of the pages before the failure, in order. It has sent one request for
  each page and the failing one, and none after it: nothing is retried.
\<close>

theorem paginated_request_stops_at_failure:
  assumes "failing_run e (length (sent w)) url pages"
  shows "\<exists>w' ev. make_paginated_request e w url = Some (concat (map fst pages), w')
           \<and> printed w' = printed w @ [ev]
           \<and> sent w' = sent w @ url # map snd pages"
  using paginate_failing_run [OF assms, of "[]"] by (simp add: make_paginated_request_def)

lemma two_page_run:
  "failing_run (example_env two_page_server) (length (sent empty_world))
     ''https://graph.microsoft.com/v1.0/chats''
     [([JInt 1, JInt 2], ''https://graph.microsoft.com/v1.0/chats?p=2'')]"
  by (simp add: example_env_def two_page_server_def empty_world_def is_page_def
      request_failed_def)

theorem paginated_request_stops_at_failure_witness:
  "\<exists>w' ev. make_paginated_request (example_env two_page_server) empty_world
              ''https://graph.microsoft.com/v1.0/chats'' = Some ([JInt 1, JInt 2], w')
           \<and> printed w' = [ev]
           \<and> sent w' = [''https://graph.microsoft.com/v1.0/chats'',
                         ''https://graph.microsoft.com/v1.0/chats?p=2'']"
  using paginated_request_stops_at_failure [OF two_page_run] by (auto simp: empty_world_def)

lemma status_failure_example:
  "make_paginated_request (example_env two_page_server) empty_world
     ''https://graph.microsoft.com/v1.0/chats''
   = Some ([JInt 1, JInt 2],
           \<lparr>sent = [''https://graph.microsoft.com/v1.0/chats'',
                     ''https://graph.microsoft.com/v1.0/chats?p=2''],
            files = [], printed = [ApiError 500]\<rparr>)"
  by code_simp

lemma network_failure_example:
  "make_paginated_request (example_env raising_server) empty_world
     ''https://graph.microsoft.com/v1.0/chats''
   = Some ([], \<lparr>sent = [''https://graph.microsoft.com/v1.0/chats''], files = [],
                printed = [ApiException]\<rparr>)"
  by code_simp

text \<open>
  C6. When the server answers the first request with status 200 and a page that holds an
  item batch and no \<open>@odata.nextLink\<close> field, \<open>_make_paginated_request\<close> returns after that
  one request, with exactly the items of the page in their order.
\<close>

theorem single_page_without_cursor:
  assumes "server e (length (sent w)) url = Response 200 content (Some (JDict kvs))"
    and "map_of kvs ''value'' = Some (JList items)"
    and "map_of kvs ''@odata.nextLink'' = None"
    and "url \<noteq> []"
  shows "make_paginated_request e w url = Some (items, w\<lparr>sent := sent w @ [url]\<rparr>)"
proof -
  have f: "fetch_page e w (JStr url) = (Inr (items, JNull), w\<lparr>sent := sent w @ [url]\<rparr>)"
    using assms by (simp add: fetch_page_def http_get_def)
  show ?thesis
    unfolding make_paginated_request_def
    using f assms(4) by (subst paginate.simps, simp, subst paginate.simps, simp)
qed

theorem single_page_without_cursor_witness:
  "make_paginated_request (example_env one_page_server) empty_world
     ''https://graph.microsoft.com/v1.0/me/joinedTeams''
   = Some ([JInt 1, JInt 2, JInt 3],
           empty_world\<lparr>sent := [''https://graph.microsoft.com/v1.0/me/joinedTeams'']\<rparr>)"
  using single_page_without_cursor [of "example_env one_page_server" empty_world
      "''https://graph.microsoft.com/v1.0/me/joinedTeams''" "[]"
      "[(''value'', JList [JInt 1, JInt 2, JInt 3])]" "[JInt 1, JInt 2, JInt 3]"]
  by (simp add: example_env_def one_page_server_def empty_world_def)

section \<open>Member lists and group chat names\<close>

lemma process_group_chat_named:
  assumes "dict_get chat ''id'' JNull = Inr chat_id"
    and "dict_get chat ''topic'' (JStr []) = Inr topic"
    and "chat_has_messages e w chat_id = (True, w1)"
    and "get_chat_members e w1 chat_id = (members, w2)"
    and "py_iter members = Inr ms"
    and "other_members e (user_display_name st) ms = Inr others"
    and "create_member_list_display others max_members_in_chat_name = (limited, full)"
    and "\<not> truthy topic" and "limited \<noteq> []"
  shows "process_group_chat e st w chat =
     (Inr (st\<lparr>chats_group := AList.update (JStr (''Group: '' @ limited)) chat_id (chats_group st),
              group_full_member_lists :=
                AList.update (JStr (''Group: '' @ limited)) full (group_full_member_lists st)\<rparr>), w2)"
  using assms by (simp add: process_group_chat_def bindE_def Let_def)

text \<open>
  C8. For a member list that is not empty and a cap \<open>N\<close> (a count, so \<open>0 \<le> N\<close>),
  \<open>create_member_list_display\<close> returns the first \<open>N\<close> names joined by \<open>", "\<close>, followed by
  \<open>"..."\<close> exactly when the list has more than \<open>N\<close> names, and all names joined by \<open>", "\<close>.
  In particular a group chat without a topic whose other members are Bob, Carol, Dan and Eve
  is stored under the name \<open>Group: Bob, Carol, Dan...\<close> with the tooltip
  \<open>Bob, Carol, Dan, Eve\<close> (the cap is the configured 3).
\<close>

theorem member_list_display_cap:
  "(member_names \<noteq> [] \<and> 0 \<le> N \<longrightarrow>
      create_member_list_display member_names N =
        (join '', '' (take (nat N) member_names)
           @ (if N < int (length member_names) then ''...'' else []),
         join '', '' member_names))
   \<and> (dict_get chat ''id'' JNull = Inr chat_id
      \<and> dict_get chat ''topic'' (JStr []) = Inr topic \<and> \<not> truthy topic
      \<and> chat_has_messages e w chat_id = (True, w1)
      \<and> get_chat_members e w1 chat_id = (members, w2)
      \<and> py_iter members = Inr ms
      \<and> other_members e (user_display_name st) ms = Inr [''Bob'', ''Carol'', ''Dan'', ''Eve'']
      \<longrightarrow> process_group_chat e st w chat =
            (Inr (st\<lparr>chats_group :=
                       AList.update (JStr ''Group: Bob, Carol, Dan...'') chat_id (chats_group st),
                     group_full_member_lists :=
                       AList.update (JStr ''Group: Bob, Carol, Dan...'') ''Bob, Carol, Dan, Eve''
                         (group_full_member_lists st)\<rparr>), w2))"
proof (intro conjI impI)
  assume "member_names \<noteq> [] \<and> 0 \<le> N"
  then show "create_member_list_display member_names N =
        (join '', '' (take (nat N) member_names)
           @ (if N < int (length member_names) then ''...'' else []),
         join '', '' member_names)"
    by (simp add: create_member_list_display_def py_slice_to_def Let_def)
next
  assume h: "dict_get chat ''id'' JNull = Inr chat_id
      \<and> dict_get chat ''topic'' (JStr []) = Inr topic \<and> \<not> truthy topic
      \<and> chat_has_messages e w chat_id = (True, w1)
      \<and> get_chat_members e w1 chat_id = (members, w2)
      \<and> py_iter members = Inr ms
      \<and> other_members e (user_display_name st) ms = Inr [''Bob'', ''Carol'', ''Dan'', ''Eve'']"
  have d: "create_member_list_display [''Bob'', ''Carol'', ''Dan'', ''Eve''] max_members_in_chat_name
      = (''Bob, Carol, Dan...'', ''Bob, Carol, Dan, Eve'')"
    by (simp add: create_member_list_display_def py_slice_to_def max_members_in_chat_name_def)
  show "process_group_chat e st w chat =
            (Inr (st\<lparr>chats_group :=
                       AList.update (JStr ''Group: Bob, Carol, Dan...'') chat_id (chats_group st),
                     group_full_member_lists :=
                       AList.update (JStr ''Group: Bob, Carol, Dan...'') ''Bob, Carol, Dan, Eve''
                         (group_full_member_lists st)\<rparr>), w2)"
    using process_group_chat_named [of chat chat_id topic e w w1 members w2 ms st _ _ _, OF _ _ _ _ _ _ d] h
    by simp
qed


lemma group_run:
  "chat_has_messages (example_env (group_server names)) empty_world (JStr ''c1'')
     = (True, empty_world\<lparr>sent := [''https://graph.microsoft.com/v1.0/chats/c1/messages?$top=10'']\<rparr>)"
  "get_chat_members (example_env (group_server names))
       (empty_world\<lparr>sent := [''https://graph.microsoft.com/v1.0/chats/c1/messages?$top=10'']\<rparr>)
       (JStr ''c1'')
     = (JList (map member names),
        empty_world\<lparr>sent := [''https://graph.microsoft.com/v1.0/chats/c1/messages?$top=10'',
                               ''https://graph.microsoft.com/v1.0/chats/c1/members'']\<rparr>)"
  by (simp_all add: chat_has_messages_def get_chat_members_def example_env_def group_server_def
      empty_world_def http_get_def fmt_def bindE_def graph_api_base_url_def)

theorem member_list_display_cap_witness:
  "create_member_list_display [''Bob'', ''Carol'', ''Dan'', ''Eve''] 3 =
     (''Bob, Carol, Dan...'', ''Bob, Carol, Dan, Eve'')
   \<and> process_group_chat (example_env (group_server [''Alice'', ''Bob'', ''Carol'', ''Dan'', ''Eve'']))
       alice empty_world (JDict [(''id'', JStr ''c1''), (''chatType'', JStr ''group'')])
     = (Inr (alice\<lparr>chats_group := [(JStr ''Group: Bob, Carol, Dan...'', JStr ''c1'')],
                   group_full_member_lists :=
                     [(JStr ''Group: Bob, Carol, Dan...'', ''Bob, Carol, Dan, Eve'')]\<rparr>),
        empty_world\<lparr>sent := [''https://graph.microsoft.com/v1.0/chats/c1/messages?$top=10'',
                               ''https://graph.microsoft.com/v1.0/chats/c1/members'']\<rparr>)"
  using member_list_display_cap [of "[''Bob'', ''Carol'', ''Dan'', ''Eve'']" 3
      "JDict [(''id'', JStr ''c1''), (''chatType'', JStr ''group'')]" "JStr ''c1''" "JStr []"
      "example_env (group_server [''Alice'', ''Bob'', ''Carol'', ''Dan'', ''Eve''])" empty_world
      "empty_world\<lparr>sent := [''https://graph.microsoft.com/v1.0/chats/c1/messages?$top=10'']\<rparr>"
      "JList (map member [''Alice'', ''Bob'', ''Carol'', ''Dan'', ''Eve''])"
      "empty_world\<lparr>sent := [''https://graph.microsoft.com/v1.0/chats/c1/messages?$top=10'',
                               ''https://graph.microsoft.com/v1.0/chats/c1/members'']\<rparr>"
      "map member [''Alice'', ''Bob'', ''Carol'', ''Dan'', ''Eve'']" alice]
    group_run [of "[''Alice'', ''Bob'', ''Carol'', ''Dan'', ''Eve'']"]
  by (simp add: alice_def member_def bindE_def fmt_def)

lemma process_group_chat_unknown:
  assumes "dict_get chat ''id'' JNull = Inr chat_id"
    and "dict_get chat ''topic'' (JStr []) = Inr topic"
    and "chat_has_messages e w chat_id = (True, w1)"
    and "get_chat_members e w1 chat_id = (members, w2)"
    and "py_iter members = Inr ms"
    and "other_members e (user_display_name st) ms = Inr []"
    and "\<not> truthy topic"
  shows "process_group_chat e st w chat =
     (Inr (st\<lparr>chats_group := AList.update (JStr ''Group: Unknown'') chat_id (chats_group st),
              group_full_member_lists :=
                AList.update (JStr ''Group: Unknown'') ''Unknown'' (group_full_member_lists st)\<rparr>), w2)"
  using assms
  by (simp add: process_group_chat_def bindE_def Let_def create_member_list_display_def)

text \<open>
  C10, as amended. For every \<open>max_display\<close>, \<open>create_member_list_display\<close> of the empty
  list is \<open>("Unknown", "Unknown")\<close>; so a group chat without a topic that has a user message
  and no member other than the exporting user is stored under the name \<open>Group: Unknown\<close> with
  the tooltip \<open>Unknown\<close>.
\<close>

theorem empty_member_list_is_unknown:
  "create_member_list_display [] max_display = (''Unknown'', ''Unknown'')
   \<and> (dict_get chat ''id'' JNull = Inr chat_id
      \<and> dict_get chat ''topic'' (JStr []) = Inr topic \<and> \<not> truthy topic
      \<and> chat_has_messages e w chat_id = (True, w1)
      \<and> get_chat_members e w1 chat_id = (members, w2)
      \<and> py_iter members = Inr ms
      \<and> other_members e (user_display_name st) ms = Inr []
      \<longrightarrow> process_group_chat e st w chat =
            (Inr (st\<lparr>chats_group :=
                       AList.update (JStr ''Group: Unknown'') chat_id (chats_group st),
                     group_full_member_lists :=
                       AList.update (JStr ''Group: Unknown'') ''Unknown''
                         (group_full_member_lists st)\<rparr>), w2))"
  using process_group_chat_unknown [of chat chat_id topic e w w1 members w2 ms st]
  by (simp add: create_member_list_display_def)

theorem empty_member_list_is_unknown_witness:
  "create_member_list_display [] (-1) = (''Unknown'', ''Unknown'')
   \<and> process_group_chat (example_env (group_server [''Alice'']))
       alice empty_world (JDict [(''id'', JStr ''c1''), (''chatType'', JStr ''group'')])
     = (Inr (alice\<lparr>chats_group := [(JStr ''Group: Unknown'', JStr ''c1'')],
                   group_full_member_lists := [(JStr ''Group: Unknown'', ''Unknown'')]\<rparr>),
        empty_world\<lparr>sent := [''https://graph.microsoft.com/v1.0/chats/c1/messages?$top=10'',
                               ''https://graph.microsoft.com/v1.0/chats/c1/members'']\<rparr>)"
  using empty_member_list_is_unknown [of "-1"
      "JDict [(''id'', JStr ''c1''), (''chatType'', JStr ''group'')]" "JStr ''c1''" "JStr []"
      "example_env (group_server [''Alice''])" empty_world
      "empty_world\<lparr>sent := [''https://graph.microsoft.com/v1.0/chats/c1/messages?$top=10'']\<rparr>"
      "JList (map member [''Alice''])"
      "empty_world\<lparr>sent := [''https://graph.microsoft.com/v1.0/chats/c1/messages?$top=10'',
                               ''https://graph.microsoft.com/v1.0/chats/c1/members'']\<rparr>"
      "map member [''Alice'']" alice]
    group_run [of "[''Alice'']"]
  by (simp add: alice_def member_def bindE_def fmt_def)

text \<open>
  Without the condition on the topic the statement fails: the group chat \<open>c1\<close> with the topic
  \<open>Team\<close>, whose only member is the exporting user Alice, is stored under \<open>Team\<close>.
\<close>

theorem topic_group_chat_counterexample:
  "process_group_chat (example_env (group_server [''Alice''])) alice empty_world
       (JDict [(''id'', JStr ''c1''), (''topic'', JStr ''Team'')])
     = (Inr (alice\<lparr>chats_group := [(JStr ''Team'', JStr ''c1'')],
                   group_full_member_lists := [(JStr ''Team'', ''Unknown'')]\<rparr>),
        empty_world\<lparr>sent := [''https://graph.microsoft.com/v1.0/chats/c1/messages?$top=10'',
                               ''https://graph.microsoft.com/v1.0/chats/c1/members'']\<rparr>)
   \<and> process_group_chat (example_env (group_server [''Alice''])) alice empty_world
       (JDict [(''id'', JStr ''c1''), (''topic'', JStr ''Team'')])
     \<noteq> (Inr (alice\<lparr>chats_group := [(JStr ''Group: Unknown'', JStr ''c1'')],
                   group_full_member_lists := [(JStr ''Group: Unknown'', ''Unknown'')]\<rparr>),
        empty_world\<lparr>sent := [''https://graph.microsoft.com/v1.0/chats/c1/messages?$top=10'',
                               ''https://graph.microsoft.com/v1.0/chats/c1/members'']\<rparr>)"
  using group_run [of "[''Alice'']"]
  by (simp add: process_group_chat_def alice_def member_def bindE_def fmt_def
      create_member_list_display_def Let_def)

section \<open>Messages are rendered in the order of their creation strings\<close>

lemma first_error_None: "list_all is_str rs \<Longrightarrow> first_error rs = None"
  by (induction rs rule: first_error.induct) auto

lemma sort_key_short: "length xs \<le> 1 \<Longrightarrow> sort_key f xs = xs"
  by (cases xs) auto

lemma sort_messages_strings:
  assumes "list_all is_str (map created_key messages)"
  shows "sort_messages messages = Inr (sort_key created_text messages)"
  using assms first_error_None [OF assms]
  by (simp add: sort_messages_def Let_def sort_key_short del: created_key.simps created_text.simps)

lemma filterE_total:
  "\<forall>x \<in> set xs. \<not> isl (f x) \<Longrightarrow> filterE f xs = Inr (filter (\<lambda>x. f x = Inr True) xs)"
proof (induction xs)
  case Nil
  then show ?case by simp
next
  case (Cons x xs)
  then obtain b where "f x = Inr b" by (cases "f x") auto
  with Cons show ?case by (simp add: bindE_def)
qed

text \<open>
  C7. Before rendering, the message list of a chat and of a channel is sorted ascending by
  the raw \<open>createdDateTime\<close> string, compared as strings (code point by code point, first
  difference decides), never as parsed dates: \<open>filtered_messages\<close>, the list rendered, is a
  permutation of the kept messages (of all messages for an ignored channel) in which the
  smaller timestamp string comes first. The messages are those of the Graph API: their
  \<open>createdDateTime\<close> is a string or absent, and the filter raises on none of them.
\<close>

theorem rendered_messages_sorted_by_created:
  assumes "list_all is_str (map created_key messages)"
    and "\<forall>m \<in> set messages. \<not> isl (keep_for_render m)"
  shows "\<exists>chat_list channel_list.
           filter_for_render messages = Inr chat_list
         \<and> sorted (map created_text chat_list)
         \<and> mset chat_list = mset (filter (\<lambda>m. keep_for_render m = Inr True) messages)
         \<and> channel_filtered_messages team_name channel_name messages = Inr channel_list
         \<and> sorted (map created_text channel_list)
         \<and> mset channel_list =
             (if (team_name, channel_name) \<in> set (map (\<lambda>(t, c). (JStr t, JStr c)) ignored_channels)
              then mset messages
              else mset (filter (\<lambda>m. keep_for_render m = Inr True) messages))"
proof -
  let ?sorted = "sort_key created_text messages"
  let ?kept = "filter (\<lambda>m. keep_for_render m = Inr True) ?sorted"
  have s: "sort_messages messages = Inr ?sorted"
    using assms(1) by (rule sort_messages_strings)
  have "\<forall>m \<in> set ?sorted. \<not> isl (keep_for_render m)"
    using assms(2) by simp
  then have f: "filter_for_render messages = Inr ?kept"
    using s filterE_total [of ?sorted keep_for_render] by (simp add: filter_for_render_def bindE_def)
  have so: "sorted (map created_text ?sorted)"
    by (rule sorted_sort_key)
  have sk: "sorted (map created_text ?kept)"
    by (rule sorted_filter) (rule so)
  have mk: "mset ?kept = mset (filter (\<lambda>m. keep_for_render m = Inr True) messages)"
    by simp
  show ?thesis
  proof (cases "(team_name, channel_name) \<in> set (map (\<lambda>(t, c). (JStr t, JStr c)) ignored_channels)")
    case True
    then have "channel_filtered_messages team_name channel_name messages = Inr ?sorted"
      using s by (simp add: channel_filtered_messages_def)
    then show ?thesis using f sk mk so True by simp
  next
    case False
    then have "channel_filtered_messages team_name channel_name messages = Inr ?kept"
      using f by (simp add: channel_filtered_messages_def)
    then show ?thesis using f sk mk False by simp
  qed
qed


lemma timeline_keys: "list_all is_str (map created_key timeline)"
  by (simp add: timeline_def text_message_def)

lemma timeline_keep: "\<forall>m \<in> set timeline. \<not> isl (keep_for_render m)"
  unfolding timeline_def text_message_def by code_simp

theorem rendered_messages_sorted_by_created_witness:
  "(\<exists>chat_list channel_list.
           filter_for_render timeline = Inr chat_list
         \<and> sorted (map created_text chat_list)
         \<and> mset chat_list = mset (filter (\<lambda>m. keep_for_render m = Inr True) timeline)
         \<and> channel_filtered_messages (JStr ''Team'') (JStr ''General'') timeline = Inr channel_list
         \<and> sorted (map created_text channel_list)
         \<and> mset channel_list =
             (if (JStr ''Team'', JStr ''General'')
                   \<in> set (map (\<lambda>(t, c). (JStr t, JStr c)) ignored_channels)
              then mset timeline
              else mset (filter (\<lambda>m. keep_for_render m = Inr True) timeline)))
   \<and> filter_for_render timeline =
       Inr [text_message ''2024-01-01T09:00:00Z'' ''one'',
            text_message ''2024-01-01T10:00:00+02:00'' ''early'',
            text_message ''2024-01-02T08:00:00Z'' ''two'']"
proof
  show "\<exists>chat_list channel_list.
           filter_for_render timeline = Inr chat_list
         \<and> sorted (map created_text chat_list)
         \<and> mset chat_list = mset (filter (\<lambda>m. keep_for_render m = Inr True) timeline)
         \<and> channel_filtered_messages (JStr ''Team'') (JStr ''General'') timeline = Inr channel_list
         \<and> sorted (map created_text channel_list)
         \<and> mset channel_list =
             (if (JStr ''Team'', JStr ''General'')
                   \<in> set (map (\<lambda>(t, c). (JStr t, JStr c)) ignored_channels)
              then mset timeline
              else mset (filter (\<lambda>m. keep_for_render m = Inr True) timeline))"
    by (rule rendered_messages_sorted_by_created [OF timeline_keys timeline_keep])
  show "filter_for_render timeline =
       Inr [text_message ''2024-01-01T09:00:00Z'' ''one'',
            text_message ''2024-01-01T10:00:00+02:00'' ''early'',
            text_message ''2024-01-02T08:00:00Z'' ''two'']"
    unfolding timeline_def text_message_def by code_simp
qed

section \<open>The placeholder for a channel without messages\<close>

lemma strip_starts: "\<not> isspace a \<Longrightarrow> strip (a # xs) \<noteq> []"
  by (auto simp: strip_def dropWhile_eq_Nil_conv)

lemma placeholder_text:
  "replace_emoji_tags ''No messages found in this channel.'' = ''No messages found in this channel.''"
  "find_images ''No messages found in this channel.'' = []"
  "clean_img_tags ''No messages found in this channel.'' = ''No messages found in this channel.''"
  "wrap_images_with_lightbox ''No messages found in this channel.''
     = ''No messages found in this channel.''"
  "strip ''No messages found in this channel.'' = ''No messages found in this channel.''"
  "strip (strip_tags ''No messages found in this channel.'') = ''No messages found in this channel.''"
  "contains ''No messages found in this channel.'' ''<systemEventMessage/>'' = False"
  "startswith ''No messages found in this channel.'' ''<attachment id='' = False"
  "re_match attachment_pattern ''No messages found in this channel.'' = None"
  by code_simp+

lemma placeholder_kept: "keep_for_render (no_messages_placeholder e) = Inr True"
  by (simp add: keep_for_render_def no_messages_placeholder_def bindE_def sender_of_def
      placeholder_text del: contains.simps)

lemma placeholder_sorted:
  "sort_messages [no_messages_placeholder e] = Inr [no_messages_placeholder e]"
  by (simp add: sort_messages_def no_messages_placeholder_def)

lemma placeholder_html:
  assumes "unescape e ''No messages found in this channel.'' = ''No messages found in this channel.''"
  shows "\<exists>piece. strip piece \<noteq> []
           \<and> generate_message_html e st w (no_messages_placeholder e) = (piece, w)"
  using assms
  by (simp add: generate_message_html_def no_messages_placeholder_def bindE_def sender_of_def
      process_message_content_def Let_def placeholder_text strip_starts isspace_def)

text \<open>
  C2, as amended. For every channel that is not ignored: when no fetched message passes
  \<open>validate_message_content\<close>, \<open>fetch_teams_and_channels\<close> stores the single synthetic message
  \<open>No messages found in this channel.\<close> in place of the empty list, and otherwise the kept
  messages, so that the list stored for a channel is never empty; and a channel that got the
  placeholder is rendered with it, as its one message. (The messages are such that the filter
  raises on none of them, and \<open>html.unescape\<close> leaves the placeholder's text, which has no
  \<open>&\<close>, as it is.) Nothing is said of chats, nor of a channel whose kept list is not empty.
\<close>

theorem channel_without_kept_messages_gets_placeholder:
  assumes "\<forall>m \<in> set all_messages. \<not> isl (validate_message_content m)"
    and "(team_name, channel_name) \<notin> set (map (\<lambda>(t, c). (JStr t, JStr c)) ignored_channels)"
    and "unescape e ''No messages found in this channel.'' = ''No messages found in this channel.''"
  shows "\<exists>stored. channel_messages_to_store e all_messages = Inr stored
           \<and> stored \<noteq> []
           \<and> (if filter (\<lambda>m. validate_message_content m = Inr True) all_messages = []
              then stored = [no_messages_placeholder e]
                \<and> (\<exists>piece. strip piece \<noteq> []
                      \<and> generate_message_html e st w (no_messages_placeholder e) = (piece, w)
                      \<and> generate_channel_html e st w team_name channel_name stored
                          = (Inr (channel_header e team_name channel_name @ piece
                                  @ ''</div>'' @ nl), w))
              else stored = filter (\<lambda>m. validate_message_content m = Inr True) all_messages)"
proof (cases "filter (\<lambda>m. validate_message_content m = Inr True) all_messages = []")
  case False
  then show ?thesis
    using filterE_total [OF assms(1)] by (simp add: channel_messages_to_store_def bindE_def)
next
  case True
  then have s: "channel_messages_to_store e all_messages = Inr [no_messages_placeholder e]"
    using filterE_total [OF assms(1)] by (simp add: channel_messages_to_store_def bindE_def)
  from placeholder_html [OF assms(3), of st w] obtain piece where
    p: "strip piece \<noteq> []" "generate_message_html e st w (no_messages_placeholder e) = (piece, w)"
    by blast
  have f: "channel_filtered_messages team_name channel_name [no_messages_placeholder e]
             = Inr [no_messages_placeholder e]"
    using assms(2) placeholder_sorted [of e] placeholder_kept [of e]
    by (simp add: channel_filtered_messages_def filter_for_render_def bindE_def)
  have "generate_channel_html e st w team_name channel_name [no_messages_placeholder e]
          = (Inr (channel_header e team_name channel_name @ piece @ ''</div>'' @ nl), w)"
    using f p by (simp add: generate_channel_html_def)
  with s p True show ?thesis by auto
qed

theorem channel_without_kept_messages_gets_placeholder_witness:
  "\<exists>stored. channel_messages_to_store channel_env [bot_message] = Inr stored
           \<and> stored \<noteq> []
           \<and> (if filter (\<lambda>m. validate_message_content m = Inr True) [bot_message] = []
              then stored = [no_messages_placeholder channel_env]
                \<and> (\<exists>piece. strip piece \<noteq> []
                      \<and> generate_message_html channel_env alice empty_world
                            (no_messages_placeholder channel_env) = (piece, empty_world)
                      \<and> generate_channel_html channel_env alice empty_world
                            (JStr ''Team'') (JStr ''Dev'') stored
                          = (Inr (channel_header channel_env (JStr ''Team'') (JStr ''Dev'') @ piece
                                  @ ''</div>'' @ nl), empty_world))
              else stored = filter (\<lambda>m. validate_message_content m = Inr True) [bot_message])"
proof -
  have a: "\<forall>m \<in> set [bot_message]. \<not> isl (validate_message_content m)"
    unfolding bot_message_def by code_simp
  have b: "(JStr ''Team'', JStr ''Dev'')
             \<notin> set (map (\<lambda>(t, c). (JStr t, JStr c)) ignored_channels)"
    by (simp add: ignored_channels_def)
  have c: "unescape channel_env ''No messages found in this channel.''
             = ''No messages found in this channel.''"
    by (simp add: channel_env_def example_env_def)
  show ?thesis
    by (rule channel_without_kept_messages_gets_placeholder [OF a b c])
qed

lemma placeholder_rendered_example:
  "channel_messages_to_store channel_env [bot_message] = Inr [no_messages_placeholder channel_env]"
  "generate_channel_html channel_env alice empty_world (JStr ''Team'') (JStr ''Dev'')
       [no_messages_placeholder channel_env]
     = (Inr (''<div id='' @ dq @ ''Team%7C%7C%7CDev'' @ dq @ '' class='' @ dq @ ''chat-section'' @ dq
             @ ''>'' @ nl
             @ ''  <h2 style='' @ dq @ ''margin-top:0'' @ dq @ ''>Team / Dev</h2>'' @ nl
             @ ''<div class='' @ dq @ ''clearfix'' @ dq @ ''><div class='' @ dq @ ''message theirs''
             @ dq @ ''><div class='' @ dq @ ''meta'' @ dq @ ''>System '' @ bullet
             @ '' 2024-01-01 00:00:00</div><div class='' @ dq @ ''text'' @ dq
             @ ''>No messages found in this channel.</div></div></div>''
             @ ''</div>'' @ nl), empty_world)"
  unfolding bot_message_def by code_simp+

text \<open>
  The claim fails for chats and for channels. A chat gets no placeholder: the chat \<open>c1\<close> holds
  one message, posted by an application; \<open>chat_has_messages\<close> accepts the chat, the rendering
  filter drops the message for its unknown sender, and \<open>_generate_chat_html\<close> returns the
  heading alone. And a channel can be rendered empty without its kept list being empty:
  \<open>validate_message_content\<close> keeps a message that holds an image and no text, so that no
  placeholder is stored, and \<open>_generate_message_html\<close> then drops it for its empty text, so
  that \<open>_generate_channel_html\<close> returns the heading alone.
\<close>

theorem rendered_without_messages_counterexample:
  "chat_has_messages (example_env bot_server) empty_world (JStr ''c1'')
     = (True, empty_world\<lparr>sent := [''https://graph.microsoft.com/v1.0/chats/c1/messages?$top=10'']\<rparr>)
   \<and> filter_for_render [bot_message] = Inr []
   \<and> generate_chat_html (example_env bot_server) alice empty_world (JStr ''Bot'') (JStr ''c1'') None
     = Some (Inr (''<div id='' @ dq @ ''Bot'' @ dq @ '' class='' @ dq @ ''chat-section'' @ dq @ ''>'' @ nl
                  @ ''  <h2 style='' @ dq @ ''margin-top:0'' @ dq @ ''>Bot</h2>'' @ nl
                  @ ''</div>'' @ nl),
             empty_world\<lparr>sent := [''https://graph.microsoft.com/v1.0/chats/c1/messages'']\<rparr>)
   \<and> channel_messages_to_store channel_env [image_only_message] = Inr [image_only_message]
   \<and> generate_channel_html channel_env alice empty_world (JStr ''Team'') (JStr ''Dev'')
       [image_only_message]
     = (Inr (''<div id='' @ dq @ ''Team%7C%7C%7CDev'' @ dq @ '' class='' @ dq @ ''chat-section'' @ dq
             @ ''>'' @ nl
             @ ''  <h2 style='' @ dq @ ''margin-top:0'' @ dq @ ''>Team / Dev</h2>'' @ nl
             @ ''</div>'' @ nl), empty_world)"
  by code_simp

section \<open>Normalization and image downloads\<close>

lemma download_sent:
  "download_image_from_src e w u tok folder mid idx = (r, w1) \<Longrightarrow>
   sent w1 = sent w \<or> sent w1 = sent w @ [u]"
  by (auto simp: download_image_from_src_def http_get_def print_event_def Let_def
      split: if_splits prod.splits response.splits)

lemma image_loop_sent:
  "image_loop e tok folder mid idx urls c w = (c', w') \<Longrightarrow>
   \<exists>new. sent w' = sent w @ new \<and> set new \<subseteq> {u \<in> set urls. startswith u graph_prefix}"
proof (induction urls arbitrary: idx c w)
  case Nil
  then show ?case by simp
next
  case (Cons u us)
  show ?case
  proof (cases "startswith u graph_prefix")
    case False
    with Cons.prems have "image_loop e tok folder mid (Suc idx) us c w = (c', w')" by simp
    from Cons.IH [OF this] show ?thesis by auto
  next
    case True
    obtain r w1 where d: "download_image_from_src e w u tok folder mid idx = (r, w1)"
      by (cases "download_image_from_src e w u tok folder mid idx")
    from Cons.prems True d obtain c1 where
      "image_loop e tok folder mid (Suc idx) us c1 w1 = (c', w')"
      by (auto split: option.splits if_splits)
    from Cons.IH [OF this] obtain new where
      n: "sent w' = sent w1 @ new" "set new \<subseteq> {u \<in> set us. startswith u graph_prefix}"
      by blast
    from download_sent [OF d] show ?thesis
    proof
      assume "sent w1 = sent w"
      with n show ?thesis by auto
    next
      assume "sent w1 = sent w @ [u]"
      with n True have "sent w' = sent w @ (u # new)"
        "set (u # new) \<subseteq> {v \<in> set (u # us). startswith v graph_prefix}"
        by auto
      then show ?thesis by blast
    qed
  qed
qed

text \<open>
  C1, as amended. For every raw markup body, every request that \<open>process_message_content\<close>
  sends goes to an image reference of the body that starts with
  \<open>https://graph.microsoft.com\<close>: for an image element whose source is hosted elsewhere no
  download is attempted. (That its markup stays as it was is not promised:
  \<open>clean_img_tags\<close> and \<open>wrap_images_with_lightbox\<close> run over the whole content.)
\<close>

theorem downloads_only_platform_images:
  assumes "process_message_content e w raw_content message_id access_token image_folder = (out, w')"
  shows "\<exists>new. sent w' = sent w @ new
           \<and> set new \<subseteq> {u \<in> set (find_images (replace_emoji_tags (unescape e raw_content))).
                           startswith u graph_prefix}"
proof -
  from assms obtain c' where
    "image_loop e access_token image_folder message_id 0
       (find_images (replace_emoji_tags (unescape e raw_content)))
       (replace_emoji_tags (unescape e raw_content)) w = (c', w')"
    by (auto simp: process_message_content_def Let_def split: prod.splits)
  then show ?thesis by (rule image_loop_sent)
qed

theorem downloads_only_platform_images_witness:
  "(\<exists>new. sent (snd (process_message_content (example_env (status_server 200)) empty_world
                (''see '' @ foreign_image @ hosted_image) ''m1'' ''token'' ''img''))
            = sent empty_world @ new
         \<and> set new \<subseteq> {u \<in> set (find_images (replace_emoji_tags
                           (unescape (example_env (status_server 200))
                              (''see '' @ foreign_image @ hosted_image)))).
                         startswith u graph_prefix})
   \<and> sent (snd (process_message_content (example_env (status_server 200)) empty_world
                (''see '' @ foreign_image @ hosted_image) ''m1'' ''token'' ''img'')) = [hosted_url]"
proof
  show "\<exists>new. sent (snd (process_message_content (example_env (status_server 200)) empty_world
                (''see '' @ foreign_image @ hosted_image) ''m1'' ''token'' ''img''))
            = sent empty_world @ new
         \<and> set new \<subseteq> {u \<in> set (find_images (replace_emoji_tags
                           (unescape (example_env (status_server 200))
                              (''see '' @ foreign_image @ hosted_image)))).
                         startswith u graph_prefix}"
    by (rule downloads_only_platform_images) (rule prod.collapse [symmetric])
  show "sent (snd (process_message_content (example_env (status_server 200)) empty_world
                (''see '' @ foreign_image @ hosted_image) ''m1'' ''token'' ''img'')) = [hosted_url]"
    unfolding hosted_image_def foreign_image_def hosted_url_def by code_simp
qed

text \<open>
  An image hosted elsewhere is not downloaded, and its element is rewritten: the attributes
  \<open>alt\<close> and \<open>width\<close> are gone, the lightbox anchor is around it, and the element as it
  was written occurs nowhere in the output.
\<close>

theorem foreign_image_rewritten_counterexample:
  "process_message_content (example_env raising_server) empty_world
       (''see '' @ foreign_image) ''m1'' ''token'' ''img''
     = (''see '' @ lightbox ''https://example.com/logo.png'', empty_world)
   \<and> \<not> contains (fst (process_message_content (example_env raising_server) empty_world
                        (''see '' @ foreign_image) ''m1'' ''token'' ''img'')) foreign_image"
  unfolding lightbox_def foreign_image_def by code_simp

text \<open>
  When no reference is hosted on the platform the loop does nothing. When the file of every
  hosted reference exists, or every download succeeds, it leaves the content with these
  references resolved; in the first case it changes nothing in the world.
\<close>

lemma image_loop_foreign:
  "\<forall>u \<in> set urls. \<not> startswith u graph_prefix \<Longrightarrow>
   image_loop e tok folder mid idx urls c w = (c, w)"
  by (induction urls arbitrary: idx) auto

lemma download_existing:
  "path_exists w (local_image_path e folder mid idx) \<Longrightarrow>
   download_image_from_src e w u tok folder mid idx = (Some (local_image_ref e folder mid idx), w)"
  by (simp add: download_image_from_src_def local_image_path_def local_image_ref_def Let_def)

lemma image_loop_existing:
  "\<forall>i < length urls. startswith (urls ! i) graph_prefix \<longrightarrow>
      path_exists w (local_image_path e folder mid (idx + i)) \<Longrightarrow>
   image_loop e tok folder mid idx urls c w = (resolve_loop e folder mid idx urls c, w)"
proof (induction urls arbitrary: idx c)
  case Nil
  then show ?case by simp
next
  case (Cons u us)
  have rest: "\<forall>i < length us. startswith (us ! i) graph_prefix \<longrightarrow>
      path_exists w (local_image_path e folder mid (Suc idx + i))"
  proof (intro allI impI)
    fix i assume "i < length us" "startswith (us ! i) graph_prefix"
    with Cons.prems [rule_format, of "Suc i"]
    show "path_exists w (local_image_path e folder mid (Suc idx + i))"
      by simp
  qed
  show ?case
  proof (cases "startswith u graph_prefix")
    case False
    then show ?thesis using Cons.IH [OF rest] by simp
  next
    case True
    with Cons.prems [rule_format, of 0]
    have "path_exists w (local_image_path e folder mid idx)"
      by simp
    from download_existing [OF this, of u tok] True show ?thesis
      using Cons.IH [OF rest] by simp
  qed
qed

lemma download_succeeds:
  assumes "\<forall>n u. \<exists>content js. server e n u = Response 200 content js"
    and "\<forall>p. can_write e p"
  shows "\<exists>w1. download_image_from_src e w u tok folder mid idx
                 = (Some (local_image_ref e folder mid idx), w1)
          \<and> path_exists w1 (local_image_path e folder mid idx)
          \<and> (\<forall>p. path_exists w p \<longrightarrow> path_exists w1 p)"
proof (cases "path_exists w (local_image_path e folder mid idx)")
  case True
  from download_existing [OF this] True show ?thesis by simp
next
  case False
  obtain content js where "server e (length (sent w)) u = Response 200 content js"
    using assms(1) by blast
  with False assms(2) show ?thesis
    by (simp add: download_image_from_src_def local_image_path_def local_image_ref_def Let_def
        http_get_def path_exists_def update_conv')
qed

lemma image_loop_succeeds:
  assumes "\<forall>n u. \<exists>content js. server e n u = Response 200 content js"
    and "\<forall>p. can_write e p"
  shows "\<exists>w1. image_loop e tok folder mid idx urls c w = (resolve_loop e folder mid idx urls c, w1)
          \<and> (\<forall>i < length urls. startswith (urls ! i) graph_prefix \<longrightarrow>
                path_exists w1 (local_image_path e folder mid (idx + i)))
          \<and> (\<forall>p. path_exists w p \<longrightarrow> path_exists w1 p)"
proof (induction urls arbitrary: idx c w)
  case Nil
  then show ?case by simp
next
  case (Cons u us)
  show ?case
  proof (cases "startswith u graph_prefix")
    case False
    from Cons.IH [of "Suc idx" c w] obtain w1 where
      l: "image_loop e tok folder mid (Suc idx) us c w = (resolve_loop e folder mid (Suc idx) us c, w1)"
      and x: "\<forall>i < length us. startswith (us ! i) graph_prefix \<longrightarrow>
                path_exists w1 (local_image_path e folder mid (Suc idx + i))"
      and m: "\<forall>p. path_exists w p \<longrightarrow> path_exists w1 p"
      by blast
    have "\<forall>i < length (u # us). startswith ((u # us) ! i) graph_prefix \<longrightarrow>
                path_exists w1 (local_image_path e folder mid (idx + i))"
    proof (intro allI impI)
      fix i assume i: "i < length (u # us)" "startswith ((u # us) ! i) graph_prefix"
      with False obtain j where "i = Suc j" by (cases i) auto
      with i x show "path_exists w1 (local_image_path e folder mid (idx + i))" by simp
    qed
    with l m False show ?thesis by simp
  next
    case True
    from download_succeeds [OF assms, of w u tok folder mid idx] obtain w0 where
      d: "download_image_from_src e w u tok folder mid idx
            = (Some (local_image_ref e folder mid idx), w0)"
      and x0: "path_exists w0 (local_image_path e folder mid idx)"
      and m0: "\<forall>p. path_exists w p \<longrightarrow> path_exists w0 p"
      by blast
    let ?c = "if local_image_ref e folder mid idx \<noteq> []
              then replace u (local_image_ref e folder mid idx) c else c"
    from Cons.IH [of "Suc idx" ?c w0] obtain w1 where
      l: "image_loop e tok folder mid (Suc idx) us ?c w0
            = (resolve_loop e folder mid (Suc idx) us ?c, w1)"
      and x: "\<forall>i < length us. startswith (us ! i) graph_prefix \<longrightarrow>
                path_exists w1 (local_image_path e folder mid (Suc idx + i))"
      and m: "\<forall>p. path_exists w0 p \<longrightarrow> path_exists w1 p"
      by blast
    have "\<forall>i < length (u # us). startswith ((u # us) ! i) graph_prefix \<longrightarrow>
                path_exists w1 (local_image_path e folder mid (idx + i))"
    proof (intro allI impI)
      fix i assume i: "i < length (u # us)" "startswith ((u # us) ! i) graph_prefix"
      show "path_exists w1 (local_image_path e folder mid (idx + i))"
      proof (cases i)
        case 0
        with x0 m show ?thesis by simp
      next
        case (Suc j)
        with i x show ?thesis by simp
      qed
    qed
    moreover have "\<forall>p. path_exists w p \<longrightarrow> path_exists w1 p"
      using m0 m by blast
    ultimately show ?thesis
      using d l True by (cases "local_image_ref e folder mid idx = []") auto
  qed
qed

lemma process_existing:
  assumes "\<forall>i < length (find_images (replace_emoji_tags (unescape e raw))).
          startswith (find_images (replace_emoji_tags (unescape e raw)) ! i) graph_prefix
          \<longrightarrow> path_exists w (local_image_path e folder mid i)"
  shows "process_message_content e w raw mid tok folder = (resolved_markup e raw mid folder, w)"
  using image_loop_existing [of "find_images (replace_emoji_tags (unescape e raw))" w e folder mid 0
      tok "replace_emoji_tags (unescape e raw)"] assms
  by (simp add: process_message_content_def resolved_markup_def Let_def)

lemma process_succeeds:
  assumes "\<forall>n u. \<exists>content js. server e n u = Response 200 content js"
    and "\<forall>p. can_write e p"
    and "process_message_content e w raw mid tok folder = (out, w1)"
  shows "out = resolved_markup e raw mid folder
    \<and> (\<forall>i < length (find_images (replace_emoji_tags (unescape e raw))).
          startswith (find_images (replace_emoji_tags (unescape e raw)) ! i) graph_prefix
          \<longrightarrow> path_exists w1 (local_image_path e folder mid i))"
proof -
  from image_loop_succeeds [OF assms(1,2), of tok folder mid 0
      "find_images (replace_emoji_tags (unescape e raw))" "replace_emoji_tags (unescape e raw)" w]
  obtain w' where
    l: "image_loop e tok folder mid 0 (find_images (replace_emoji_tags (unescape e raw)))
          (replace_emoji_tags (unescape e raw)) w
        = (resolve_loop e folder mid 0 (find_images (replace_emoji_tags (unescape e raw)))
             (replace_emoji_tags (unescape e raw)), w')"
    and x: "\<forall>i < length (find_images (replace_emoji_tags (unescape e raw))).
          startswith (find_images (replace_emoji_tags (unescape e raw)) ! i) graph_prefix
          \<longrightarrow> path_exists w' (local_image_path e folder mid (0 + i))"
    by blast
  from l assms(3) have "out = resolved_markup e raw mid folder" "w1 = w'"
    by (simp_all add: process_message_content_def resolved_markup_def Let_def)
  with x show ?thesis by simp
qed

text \<open>
  C4, as amended. Running \<open>process_message_content\<close> again on a raw body whose
  platform-hosted images all have their local file on disk sends no request and writes no
  file (the file-exists check short-circuits), and its markup is the body with these images
  resolved, whatever the world: after a first run whose downloads all succeeded, the second
  run returns markup byte-identical to that of the first. Applying it to content in which
  every image reference is already a local path (none starts with
  \<open>https://graph.microsoft.com\<close>) sends no request and writes no file either, and returns the
  content after the text transforms alone (entities, emoji, \<open>clean_img_tags\<close>,
  \<open>wrap_images_with_lightbox\<close>); that this result is the input again is not promised.
\<close>

theorem resolved_content_needs_no_download:
  "((\<forall>u \<in> set (find_images (replace_emoji_tags (unescape e content))).
        \<not> startswith u graph_prefix)
     \<longrightarrow> process_message_content e w content message_id access_token image_folder
          = (wrap_images_with_lightbox (clean_img_tags (replace_emoji_tags (unescape e content))), w))
   \<and> ((\<forall>i < length (find_images (replace_emoji_tags (unescape e raw_content))).
          startswith (find_images (replace_emoji_tags (unescape e raw_content)) ! i) graph_prefix
          \<longrightarrow> path_exists w1 (local_image_path e image_folder message_id i))
     \<longrightarrow> process_message_content e w1 raw_content message_id access_token image_folder
          = (resolved_markup e raw_content message_id image_folder, w1))
   \<and> ((\<forall>n u. \<exists>bytes js. server e n u = Response 200 bytes js) \<and> (\<forall>p. can_write e p)
       \<and> process_message_content e w0 body message_id access_token image_folder = (out, w2)
     \<longrightarrow> process_message_content e w2 body message_id access_token image_folder = (out, w2))"
proof (intro conjI impI)
  assume "\<forall>u \<in> set (find_images (replace_emoji_tags (unescape e content))).
        \<not> startswith u graph_prefix"
  from image_loop_foreign [OF this]
  show "process_message_content e w content message_id access_token image_folder
          = (wrap_images_with_lightbox (clean_img_tags (replace_emoji_tags (unescape e content))), w)"
    by (simp add: process_message_content_def Let_def)
next
  assume "\<forall>i < length (find_images (replace_emoji_tags (unescape e raw_content))).
          startswith (find_images (replace_emoji_tags (unescape e raw_content)) ! i) graph_prefix
          \<longrightarrow> path_exists w1 (local_image_path e image_folder message_id i)"
  then show "process_message_content e w1 raw_content message_id access_token image_folder
          = (resolved_markup e raw_content message_id image_folder, w1)"
    by (rule process_existing)
next
  assume a: "(\<forall>n u. \<exists>bytes js. server e n u = Response 200 bytes js) \<and> (\<forall>p. can_write e p)
       \<and> process_message_content e w0 body message_id access_token image_folder = (out, w2)"
  then have "out = resolved_markup e body message_id image_folder
    \<and> (\<forall>i < length (find_images (replace_emoji_tags (unescape e body))).
          startswith (find_images (replace_emoji_tags (unescape e body)) ! i) graph_prefix
          \<longrightarrow> path_exists w2 (local_image_path e image_folder message_id i))"
    using process_succeeds [of e w0 body message_id access_token image_folder out w2] by blast
  then show "process_message_content e w2 body message_id access_token image_folder = (out, w2)"
    using process_existing [of e body w2 image_folder message_id access_token] by simp
qed

lemma example_references:
  "find_images (replace_emoji_tags (''see '' @ lightbox ''img/m1_img0.jpg'')) = [''img/m1_img0.jpg'']"
  "find_images (replace_emoji_tags (''see '' @ hosted_image)) = [hosted_url]"
  unfolding lightbox_def hosted_image_def hosted_url_def by code_simp+

lemma example_first_run:
  "process_message_content (example_env (status_server 200)) empty_world
       (''see '' @ hosted_image) ''m1'' ''token'' ''img''
     = (''see '' @ lightbox ''img/m1_img0.jpg'', downloaded_world)"
  unfolding lightbox_def hosted_image_def downloaded_world_def hosted_url_def by code_simp

theorem resolved_content_needs_no_download_witness:
  "process_message_content (example_env (status_server 200)) downloaded_world
       (''see '' @ lightbox ''img/m1_img0.jpg'') ''m1'' ''token'' ''img''
     = (wrap_images_with_lightbox (clean_img_tags (replace_emoji_tags
          (unescape (example_env (status_server 200)) (''see '' @ lightbox ''img/m1_img0.jpg'')))),
        downloaded_world)
   \<and> process_message_content (example_env (status_server 200)) downloaded_world
          (''see '' @ hosted_image) ''m1'' ''token'' ''img''
     = (resolved_markup (example_env (status_server 200)) (''see '' @ hosted_image) ''m1'' ''img'',
        downloaded_world)
   \<and> process_message_content (example_env (status_server 200)) downloaded_world
          (''see '' @ hosted_image) ''m1'' ''token'' ''img''
     = (''see '' @ lightbox ''img/m1_img0.jpg'', downloaded_world)"
proof -
  let ?e = "example_env (status_server 200)"
  have u: "unescape ?e = (\<lambda>s. s)" and pj: "path_join ?e = (\<lambda>a b. a @ ''/'' @ b)"
    by (simp_all add: example_env_def)
  have h1: "\<forall>u \<in> set (find_images (replace_emoji_tags
               (unescape ?e (''see '' @ lightbox ''img/m1_img0.jpg'')))).
             \<not> startswith u graph_prefix"
    unfolding u example_references by (simp add: startswith_def graph_prefix_def)
  have z: "str_nat 0 = ''0''"
    by code_simp
  have h2: "\<forall>i < length (find_images (replace_emoji_tags (unescape ?e (''see '' @ hosted_image)))).
          startswith (find_images (replace_emoji_tags (unescape ?e (''see '' @ hosted_image))) ! i)
            graph_prefix
          \<longrightarrow> path_exists downloaded_world (local_image_path ?e ''img'' ''m1'' i)"
    unfolding u pj example_references local_image_path_def
    by (simp add: z path_exists_def downloaded_world_def)
  have h3: "(\<forall>n u. \<exists>bytes js. server ?e n u = Response 200 bytes js) \<and> (\<forall>p. can_write ?e p)"
    by (simp add: example_env_def status_server_def)
  show ?thesis
    using resolved_content_needs_no_download [of ?e "''see '' @ lightbox ''img/m1_img0.jpg''"
        downloaded_world "''m1''" "''token''" "''img''" "''see '' @ hosted_image" downloaded_world
        empty_world "''see '' @ hosted_image" "''see '' @ lightbox ''img/m1_img0.jpg''"
        downloaded_world]
      h1 h2 h3 example_first_run
    by blast
qed

text \<open>
  The output of a first run, given as input, does not come back byte-identical: the run
  over it sends no request, and wraps the image that the first run wrapped in a second
  lightbox anchor.
\<close>

theorem second_pass_wraps_again_counterexample:
  "process_message_content (example_env (status_server 200)) empty_world
       (''see '' @ hosted_image) ''m1'' ''token'' ''img''
     = (''see '' @ lightbox ''img/m1_img0.jpg'', downloaded_world)
   \<and> process_message_content (example_env (status_server 200)) downloaded_world
       (''see '' @ lightbox ''img/m1_img0.jpg'') ''m1'' ''token'' ''img''
     = (''see <a href='' @ dq @ ''img/m1_img0.jpg'' @ dq @ '' class='' @ dq @ ''lightbox'' @ dq @ ''>''
          @ lightbox ''img/m1_img0.jpg'' @ ''</a>'', downloaded_world)
   \<and> fst (process_message_content (example_env (status_server 200)) downloaded_world
            (''see '' @ lightbox ''img/m1_img0.jpg'') ''m1'' ''token'' ''img'')
     \<noteq> ''see '' @ lightbox ''img/m1_img0.jpg''"
  unfolding lightbox_def hosted_image_def downloaded_world_def hosted_url_def
  by code_simp

text \<open>
  C3. The claim: when the download of a platform-hosted image fails, by a status other
  than 200 or by a network error, its remote URL stays in the output and the rest of the
  message is processed. The code keeps the URL on a network error only. On the status 404,
  with no file on disk, \<open>download_image_from_src\<close> writes nothing and still returns the
  local path, and the URL is replaced by the path of a file that does not exist.
\<close>

theorem failed_status_replaces_url:
  "process_message_content (example_env (status_server 404)) empty_world
       (''see '' @ hosted_image) ''m1'' ''token'' ''img''
     = (''see '' @ lightbox ''img/m1_img0.jpg'',
        \<lparr>sent = [hosted_url], files = [], printed = []\<rparr>)
   \<and> \<not> contains (fst (process_message_content (example_env (status_server 404)) empty_world
                        (''see '' @ hosted_image) ''m1'' ''token'' ''img'')) hosted_url"
  unfolding lightbox_def hosted_image_def hosted_url_def by code_simp

text \<open>On a network error the URL stays, as the claim says.\<close>

lemma network_error_keeps_url:
  "process_message_content (example_env raising_server) empty_world
       (''see '' @ hosted_image) ''m1'' ''token'' ''img''
     = (''see '' @ lightbox hosted_url,
        \<lparr>sent = [hosted_url], files = [], printed = [ImageError hosted_url]\<rparr>)"
  unfolding lightbox_def hosted_image_def hosted_url_def by code_simp

end
